theory Spec2Isabelle
  imports Main "HOL-Library.Sublist" "HOL-Library.Code_Target_Nat"
begin

section \<open>Python strings and the interpreter environment\<close>

text \<open>
  A Python \<open>str\<close> is a sequence of Unicode code points. The source handles code points
  beyond ASCII (superscript digits, the glyphs of the irrational constants), so a string
  is modelled as a list of code points; \<open>asc\<close> embeds an ASCII literal.
\<close>

type_synonym ustr = "nat list"

definition asc :: "string \<Rightarrow> ustr" where
  "asc s = map of_char s"

text \<open>
  What the source takes from the Python runtime rather than from its own text is a
  parameter of the model: the Unicode tables behind \<open>str.isalpha\<close>, \<open>str.isdigit\<close> and
  the regular-expression classes \<open>\d\<close> and \<open>\w\<close> (they are consulted for code points
  from 128 on; the ASCII range is written out below), the order in which a \<open>set\<close> is
  iterated, which CPython derives from hash values, and the text \<open>repr\<close> prints for the
  float that a literal with a decimal point denotes.
\<close>

record pyenv =
  uc_isalpha :: "nat \<Rightarrow> bool"
  uc_isdigit :: "nat \<Rightarrow> bool"
  uc_isdecimal :: "nat \<Rightarrow> bool"
  uc_isword :: "nat \<Rightarrow> bool"
  set_iter :: "ustr list \<Rightarrow> ustr list"
  float_repr :: "ustr \<Rightarrow> ustr"

definition ascii_lower :: "nat \<Rightarrow> bool" where
  "ascii_lower c = (97 \<le> c \<and> c \<le> 122)"

definition ascii_upper :: "nat \<Rightarrow> bool" where
  "ascii_upper c = (65 \<le> c \<and> c \<le> 90)"

definition ascii_digit :: "nat \<Rightarrow> bool" where
  "ascii_digit c = (48 \<le> c \<and> c \<le> 57)"

definition char_isalpha :: "pyenv \<Rightarrow> nat \<Rightarrow> bool" where
  "char_isalpha E c = (if c < 128 then ascii_lower c \<or> ascii_upper c else uc_isalpha E c)"

definition char_isdigit :: "pyenv \<Rightarrow> nat \<Rightarrow> bool" where
  "char_isdigit E c = (if c < 128 then ascii_digit c else uc_isdigit E c)"

text \<open>\<open>str.isalpha\<close> and \<open>str.isdigit\<close>: every character qualifies and there is at least one.\<close>

definition isalpha :: "pyenv \<Rightarrow> ustr \<Rightarrow> bool" where
  "isalpha E s = (s \<noteq> [] \<and> list_all (char_isalpha E) s)"

definition isdigit :: "pyenv \<Rightarrow> ustr \<Rightarrow> bool" where
  "isdigit E s = (s \<noteq> [] \<and> list_all (char_isdigit E) s)"

text \<open>The regular-expression classes \<open>\d\<close>, \<open>[\d.]\<close> and \<open>\w\<close>, and the anchor \<open>\b\<close>.\<close>

definition re_digit :: "pyenv \<Rightarrow> nat \<Rightarrow> bool" where
  "re_digit E c = (if c < 128 then ascii_digit c else uc_isdecimal E c)"

definition re_word :: "pyenv \<Rightarrow> nat \<Rightarrow> bool" where
  "re_word E c =
     (if c < 128 then ascii_lower c \<or> ascii_upper c \<or> ascii_digit c \<or> c = 95
      else uc_isword E c)"

fun digit_or_dot :: "pyenv \<Rightarrow> nat option \<Rightarrow> bool" where
  "digit_or_dot E None = False"
| "digit_or_dot E (Some c) = (re_digit E c \<or> c = 46)"

fun word_at :: "pyenv \<Rightarrow> nat option \<Rightarrow> bool" where
  "word_at E None = False"
| "word_at E (Some c) = re_word E c"

definition word_boundary :: "pyenv \<Rightarrow> nat option \<Rightarrow> nat option \<Rightarrow> bool" where
  "word_boundary E prev next_c = (word_at E prev \<noteq> word_at E next_c)"

fun first_char :: "ustr \<Rightarrow> nat option" where
  "first_char [] = None"
| "first_char (c # cs) = Some c"

text \<open>\<open>str.replace(old, '')\<close> for a one-character \<open>old\<close>, and \<open>sub in s\<close>.\<close>

definition remove_char :: "nat \<Rightarrow> ustr \<Rightarrow> ustr" where
  "remove_char c s = filter (\<lambda>x. x \<noteq> c) s"

fun contains :: "ustr \<Rightarrow> ustr \<Rightarrow> bool" where
  "contains sub [] = (sub = [])"
| "contains sub (c # cs) = (prefix sub (c # cs) \<or> contains sub cs)"

section \<open>Exact-token matching: \<open>match_exact_tokens\<close>, \<open>replace_exact_tokens\<close>\<close>

text \<open>
  Both functions build the same pattern: the alternation, in the order of the token
  list, of one pattern per token. A token that fully matches \<open>\d+(?:\.\d+)?\<close> is
  guarded by \<open>(?<![\d.])\<close> and \<open>(?![\d.])\<close>; any other token stands between two \<open>\b\<close>.
\<close>

definition is_number_token :: "pyenv \<Rightarrow> ustr \<Rightarrow> bool" where
  "is_number_token E t =
     (let d1 = takeWhile (re_digit E) t; r = dropWhile (re_digit E) t
      in d1 \<noteq> [] \<and>
         (case r of [] \<Rightarrow> True
          | c # d2 \<Rightarrow> c = 46 \<and> d2 \<noteq> [] \<and> list_all (re_digit E) d2))"

text \<open>
  Whether the pattern of token \<open>tok\<close> matches at a position of the subject, given the
  character in front of the position (\<open>None\<close> at the start) and the text from the position on.
\<close>

definition token_matches :: "pyenv \<Rightarrow> ustr \<Rightarrow> nat option \<Rightarrow> ustr \<Rightarrow> bool" where
  "token_matches E tok prev s =
     (prefix tok s \<and>
      (let next_c = first_char (drop (length tok) s)
       in if is_number_token E tok
          then \<not> digit_or_dot E prev \<and> \<not> digit_or_dot E next_c
          else word_boundary E prev (first_char s) \<and>
               word_boundary E (if tok = [] then prev else Some (last tok)) next_c))"

text \<open>
  The first alternative that matches at the position. After an empty match the
  regular-expression engine searches again from the same position and refuses a second
  empty match there (\<open>must_advance\<close>).
\<close>

definition match_here :: "pyenv \<Rightarrow> ustr list \<Rightarrow> bool \<Rightarrow> nat option \<Rightarrow> ustr \<Rightarrow> ustr option" where
  "match_here E toks must_advance prev s =
     find (\<lambda>tok. token_matches E tok prev s \<and> (if must_advance then tok \<noteq> [] else True)) toks"

text \<open>
  One left-to-right scan of the subject, as \<open>re.findall\<close> and \<open>re.sub\<close> perform it:
  the result lists, in order, each match (\<open>Inl\<close>) and each character that no match
  covers (\<open>Inr\<close>).
\<close>

function scan :: "pyenv \<Rightarrow> ustr list \<Rightarrow> bool \<Rightarrow> nat option \<Rightarrow> ustr \<Rightarrow> (ustr + nat) list" where
  "scan E toks must_advance prev s =
     (case match_here E toks must_advance prev s of
        Some tok \<Rightarrow>
          (if tok = [] then Inl tok # scan E toks True prev s
           else Inl tok # scan E toks False (Some (last tok)) (drop (length tok) s))
      | None \<Rightarrow>
          (case s of [] \<Rightarrow> []
           | c # cs \<Rightarrow> Inr c # scan E toks False (Some c) cs))"
  by pat_completeness auto
termination
proof (relation "measures [\<lambda>(E, toks, adv, prev, s). length s,
                           \<lambda>(E, toks, adv, prev, s). if adv then 0 else 1]")
  show "wf (measures [\<lambda>(E, toks, adv, prev, s). length s,
                      \<lambda>(E, toks, adv, prev, s). if adv then 0 else 1])"
    by simp
next
  fix E :: pyenv and toks :: "ustr list" and must_advance :: bool
    and prev :: "nat option" and s :: ustr and tok :: ustr
  assume m: "match_here E toks must_advance prev s = Some tok" and e: "tok = []"
  from m have "if must_advance then tok \<noteq> [] else True"
    unfolding match_here_def by (auto dest: find_Some_iff [THEN iffD1])
  with e have "\<not> must_advance" by (simp split: if_splits)
  then show "((E, toks, True, prev, s), (E, toks, must_advance, prev, s))
      \<in> measures [\<lambda>(E, toks, adv, prev, s). length s,
                   \<lambda>(E, toks, adv, prev, s). if adv then 0 else 1]"
    by simp
next
  fix E :: pyenv and toks :: "ustr list" and must_advance :: bool
    and prev :: "nat option" and s :: ustr and tok :: ustr
  assume m: "match_here E toks must_advance prev s = Some tok" and ne: "tok \<noteq> []"
  from m have "prefix tok s"
    unfolding match_here_def token_matches_def by (auto dest: find_Some_iff [THEN iffD1])
  with ne have "s \<noteq> []" by auto
  with ne show "((E, toks, False, Some (last tok), drop (length tok) s),
       (E, toks, must_advance, prev, s))
      \<in> measures [\<lambda>(E, toks, adv, prev, s). length s,
                   \<lambda>(E, toks, adv, prev, s). if adv then 0 else 1]"
    by simp
next
  fix E :: pyenv and toks :: "ustr list" and must_advance :: bool
    and prev :: "nat option" and s :: ustr and c :: nat and cs :: ustr
  assume "s = c # cs"
  then show "((E, toks, False, Some c, cs), (E, toks, must_advance, prev, s))
      \<in> measures [\<lambda>(E, toks, adv, prev, s). length s,
                   \<lambda>(E, toks, adv, prev, s). if adv then 0 else 1]"
    by simp
qed

text \<open>
  \<open>'|'.join\<close> of no token is the empty pattern, which matches the empty string at every
  position of the subject.
\<close>

definition tokens_scan :: "pyenv \<Rightarrow> ustr list \<Rightarrow> ustr \<Rightarrow> (ustr + nat) list" where
  "tokens_scan E toks s =
     (if toks = [] then Inl [] # concat (map (\<lambda>c. [Inr c, Inl []]) s)
      else scan E toks False None s)"

definition match_exact_tokens :: "pyenv \<Rightarrow> ustr \<Rightarrow> ustr list \<Rightarrow> ustr list" where
  "match_exact_tokens E string tokenlist =
     concat (map (\<lambda>x. case x of Inl tok \<Rightarrow> [tok] | Inr c \<Rightarrow> []) (tokens_scan E tokenlist string))"

text \<open>Python's \<open>any\<close> over a list of strings: some string is not empty.\<close>

definition any_str :: "ustr list \<Rightarrow> bool" where
  "any_str xs = list_ex (\<lambda>x. x \<noteq> []) xs"

text \<open>A \<open>dict\<close> keeps insertion order; \<open>tokens_mapping.get(token, token)\<close>.\<close>

definition dict_get :: "(ustr \<times> ustr) list \<Rightarrow> ustr \<Rightarrow> ustr" where
  "dict_get m k = (case map_of m k of Some v \<Rightarrow> v | None \<Rightarrow> k)"

definition replace_exact_tokens :: "pyenv \<Rightarrow> ustr \<Rightarrow> (ustr \<times> ustr) list \<Rightarrow> ustr" where
  "replace_exact_tokens E string tokens_mapping =
     concat (map (\<lambda>x. case x of Inl tok \<Rightarrow> dict_get tokens_mapping tok | Inr c \<Rightarrow> [c])
       (tokens_scan E (map fst tokens_mapping) string))"


section \<open>Superscript exponents: \<open>replace_superscript_exponents\<close>\<close>

text \<open>The table \<open>SUPERSCRIPTS\<close>: each superscript digit glyph and its ASCII digit.\<close>

definition SUPERSCRIPTS :: "(nat \<times> nat) list" where
  "SUPERSCRIPTS =
     [(0x2070, 48), (0xB9, 49), (0xB2, 50), (0xB3, 51), (0x2074, 52),
      (0x2075, 53), (0x2076, 54), (0x2077, 55), (0x2078, 56), (0x2079, 57)]"

text \<open>The table \<open>IRRATIONALS\<close>: macro name, glyph, decimal value.\<close>

definition IRRATIONALS :: "(ustr \<times> ustr \<times> ustr) list" where
  "IRRATIONALS =
     [(asc ''Pi'', [0x3C0], asc ''3.1415927''),
      (asc ''eNum'', [0x1D452], asc ''2.7182818''),
      (asc ''Gold'', [0x3C6], asc ''1.6180339'')]"

text \<open>The character classes \<open>[A-Za-z0-9\<pi>e\<phi>]\<close> (with the three glyphs) and the superscripts.\<close>

definition is_base_char :: "nat \<Rightarrow> bool" where
  "is_base_char c =
     (ascii_upper c \<or> ascii_lower c \<or> ascii_digit c \<or> c = 0x3C0 \<or> c = 0x1D452 \<or> c = 0x3C6)"

definition is_superscript :: "nat \<Rightarrow> bool" where
  "is_superscript c = (c \<in> set (map fst SUPERSCRIPTS))"

text \<open>\<open>"".join(SUPERSCRIPTS.get(ch, '') for ch in superscripts)\<close>\<close>

definition exponent_of :: "ustr \<Rightarrow> ustr" where
  "exponent_of superscripts =
     concat (map (\<lambda>ch. case map_of SUPERSCRIPTS ch of Some d \<Rightarrow> [d] | None \<Rightarrow> []) superscripts)"

definition repl_base :: "ustr \<Rightarrow> ustr \<Rightarrow> ustr" where
  "repl_base base superscripts = asc ''('' @ base @ asc ''**'' @ exponent_of superscripts @ asc '')''"

definition repl_paren :: "ustr \<Rightarrow> ustr" where
  "repl_paren superscripts = asc '')'' @ asc ''**'' @ exponent_of superscripts"

text \<open>
  \<open>re.sub(pattern_base, repl_base, expr)\<close>. Both groups are greedy runs of one class and
  the classes are disjoint, so the pattern matches at a position exactly when the
  longest run of base characters from there is followed by a superscript.
\<close>

function sub_pattern_base :: "ustr \<Rightarrow> ustr" where
  "sub_pattern_base [] = []"
| "sub_pattern_base (c # cs) =
     (let base = takeWhile is_base_char (c # cs);
          rest = dropWhile is_base_char (c # cs);
          superscripts = takeWhile is_superscript rest
      in if base \<noteq> [] \<and> superscripts \<noteq> []
         then repl_base base superscripts @ sub_pattern_base (dropWhile is_superscript rest)
         else c # sub_pattern_base cs)"
  by pat_completeness auto
termination
proof (relation "measure length")
  show "wf (measure length)" by simp
next
  fix c :: nat and cs base rest superscripts :: ustr
  assume b: "base = takeWhile is_base_char (c # cs)"
    and r: "rest = dropWhile is_base_char (c # cs)"
    and ne: "superscripts = takeWhile is_superscript rest"
    and m: "base \<noteq> [] \<and> superscripts \<noteq> []"
  have "length (dropWhile is_superscript rest) \<le> length rest"
    by (rule length_dropWhile_le)
  moreover from b m have "is_base_char c" by (auto split: if_splits)
  with r have "length rest \<le> length cs"
    by (simp add: length_dropWhile_le)
  ultimately show "(dropWhile is_superscript rest, c # cs) \<in> measure length" by simp
next
  fix c :: nat and cs :: ustr
  show "(cs, c # cs) \<in> measure length" by simp
qed

text \<open>\<open>re.sub(pattern_paren, repl_paren, expr)\<close>: a closing parenthesis, then superscripts.\<close>

function sub_pattern_paren :: "ustr \<Rightarrow> ustr" where
  "sub_pattern_paren [] = []"
| "sub_pattern_paren (c # cs) =
     (let superscripts = takeWhile is_superscript cs
      in if c = 41 \<and> superscripts \<noteq> []
         then repl_paren superscripts @ sub_pattern_paren (dropWhile is_superscript cs)
         else c # sub_pattern_paren cs)"
  by pat_completeness auto
termination
  by (relation "measure length") (auto simp: length_dropWhile_le less_Suc_eq_le)

definition replace_superscript_exponents :: "ustr \<Rightarrow> ustr" where
  "replace_superscript_exponents expr = sub_pattern_paren (sub_pattern_base expr)"


section \<open>The node tree and the custom node\<close>

text \<open>
  The node tree of the custom group as far as the source reads or writes it. A node
  carries its identity, its \<open>name\<close>, its \<open>type\<close> and the one setting the source assigns
  (\<open>operation\<close>, \<open>data_type\<close> or \<open>clamp_type\<close>; for a value node the literal whose float is
  the default value of its output). Labels, locations and widths only position the
  nodes and are left out. The boundary input sockets are the items of the tree's
  interface; the Group Input node shows them as its outputs, followed by the virtual
  socket of type \<open>CUSTOM\<close> that Blender appends.
\<close>

datatype node_type = GROUP_INPUT | GROUP_OUTPUT | VALUE | MATH | MIX | CLAMP

record node =
  node_id :: nat
  node_name :: ustr
  node_type :: node_type
  node_setting :: ustr

datatype socket_type = FLOAT_SOCKET | CUSTOM

record socket =
  sock_identifier :: nat
  sock_name :: ustr
  sock_type :: socket_type

text \<open>
  A socket handle: a boundary input socket (an output of the Group Input node, known by
  its identity, since its index moves when sockets are removed), or the output or input
  of a node at an index.
\<close>

datatype sockref = GroupIn nat | NodeOut nat nat | NodeIn nat nat

record node_tree =
  nodes :: "node list"
  active :: "nat option"
  inputs :: "socket list"
  links :: "(sockref \<times> sockref) list"
  fresh :: nat

text \<open>
  The custom node \<open>EXTRANODES_NG_mathexpression\<close>: its node tree, its properties and the
  element sets that \<open>sanatize_expression\<close> stores on it. A set is kept as the list of
  its members without repetition.
\<close>

record mathnode =
  node_tree :: node_tree
  error_message :: ustr
  debug_sanatized :: ustr
  debug_fctexp :: ustr
  user_mathexp :: ustr
  implicit_mult :: bool
  auto_symbols :: bool
  elemTotal :: "ustr list"
  elemFct :: "ustr list"
  elemConst :: "ustr list"
  elemVar :: "ustr list"
  elemCmplx :: "ustr list"

definition set_add :: "ustr \<Rightarrow> ustr list \<Rightarrow> ustr list" where
  "set_add x xs = (if x \<in> set xs then xs else xs @ [x])"

section \<open>Errors\<close>

text \<open>
  Every failure the source reports is an \<open>Exception\<close> with a message, returned (not
  raised) by the stage that failed. \<open>message\<close> is the text the source formats.
\<close>

datatype error =
    UnrecognizedVariable ustr
  | VariableTaken ustr
  | UnrecognizedSymbol nat
  | ExpressionNotRecognized
  | FunctionNotRecognized ustr
  | NeedsMoreParams ustr nat
  | ExtraParams ustr
  | WrongArguments
  | TupleSyntax
  | ExecutionError
  | FinalLinkError

definition quoted :: "ustr \<Rightarrow> ustr" where
  "quoted s = [39] @ s @ [39]"

fun message :: "error \<Rightarrow> ustr" where
  "message (UnrecognizedVariable e) = asc ''Unrecorgnized Variable '' @ quoted e"
| "message (VariableTaken e) = asc ''Variable '' @ quoted e @ asc '' is Taken''"
| "message (UnrecognizedSymbol c) = asc ''Unrecorgnized Symbol '' @ quoted [c]"
| "message ExpressionNotRecognized = asc ''Math Expression Not Recognized''"
| "message (FunctionNotRecognized f) = quoted f @ asc '' Function Not Recognized''"
| "message (NeedsMoreParams f nbr) =
     asc ''Function '' @ quoted f @ asc '' needs '' @ [nbr] @ asc '' more Params''"
| "message (ExtraParams f) = asc ''Function '' @ quoted f @ asc '' recieved Extra Params''"
| "message WrongArguments = asc ''Wrong Arguments Given''"
| "message TupleSyntax = asc ''Wrong use of '' @ quoted (asc ''( , )'') @ asc '' Synthax''"
| "message ExecutionError = asc ''Error on Execution''"
| "message FinalLinkError = asc ''Error on Final Link''"

section \<open>The function registry: \<open>NodeSetter.get_functions\<close>\<close>

text \<open>The class methods of \<open>NodeSetter\<close>, in the order the class body defines them.\<close>

definition NodeSetter_classmethods :: "ustr list" where
  "NodeSetter_classmethods = map asc
     [''get_functions'', ''execute_function_expression'',
      ''_floatmath'', ''_floatmath_nroot'', ''_mix'', ''_floatclamp'',
      ''add'', ''subtract'', ''mult'', ''div'', ''exp'', ''power'', ''log'', ''sqrt'',
      ''invsqrt'', ''nroot'', ''abs'', ''min'', ''max'', ''round'', ''floor'', ''ceil'',
      ''trunc'', ''modulo'', ''wrap'', ''snap'', ''floordiv'', ''sin'', ''cos'', ''tan'',
      ''asin'', ''acos'', ''atan'', ''hsin'', ''hcos'', ''htan'', ''rad'', ''deg'',
      ''lerp'', ''mix'', ''clamp'', ''clampr'']"

definition get_functions :: "ustr list" where
  "get_functions =
     filter (\<lambda>fname. \<not> prefix (asc ''_'') fname \<and>
                     fname \<notin> set (map asc [''get_functions'', ''execute_function_expression'']))
       NodeSetter_classmethods"

section \<open>Sanitizing: \<open>sanatize_expression\<close>\<close>

text \<open>\<open>str.split(sep)\<close> for a one-character separator.\<close>

fun split_char :: "nat \<Rightarrow> ustr \<Rightarrow> ustr list" where
  "split_char sep [] = [[]]"
| "split_char sep (c # cs) =
     (if c = sep then [] # split_char sep cs
      else (case split_char sep cs of p # ps \<Rightarrow> (c # p) # ps | [] \<Rightarrow> [[c]]))"

definition synthax :: ustr where
  "synthax = asc ''.,()''"

definition operand :: ustr where
  "operand = asc ''/*-+%''"

definition authorized_symbols :: ustr where
  "authorized_symbols =
     synthax @ operand @ asc ''abcdefghijklmnopqrstuvwxyz'' @ asc ''ABCDEFGHIJKLMNOPQRSTUVWXYZ''
       @ asc ''0123456789''"

text \<open>
  The loop that replaces every character of \<open>operand + ',()'\<close> by \<open>|\<close>, the split on
  \<open>|\<close>, and the set of the pieces that are not empty.
\<close>

definition gather_elements :: "ustr \<Rightarrow> ustr list" where
  "gather_elements expression =
     (let elemTotal = map (\<lambda>c. if c \<in> set (operand @ asc '',()'') then 124 else c) expression
      in foldl (\<lambda>acc e. set_add e acc) [] (filter (\<lambda>e. e \<noteq> []) (split_char 124 elemTotal)))"

text \<open>
  The two classification loops. Each runs over the elements in the order the set yields
  them; the body either files the element in one of the sets on the node (\<open>continue\<close>)
  or returns the exception, and the sets filled so far stay on the node.
\<close>

definition classify_implicit :: "pyenv \<Rightarrow> ustr \<Rightarrow> ustr \<Rightarrow> mathnode \<Rightarrow> error + mathnode" where
  "classify_implicit E expression e self =
     (if e \<in> set get_functions \<and> contains (e @ asc ''('') expression
        then Inr (self\<lparr>elemFct := set_add e (elemFct self)\<rparr>)
      else if isdigit E (remove_char 46 e)
        then Inr (self\<lparr>elemConst := set_add e (elemConst self)\<rparr>)
      else if isalpha E e
        then Inr (self\<lparr>elemVar := set_add e (elemVar self)\<rparr>)
      else if list_ex (char_isdigit E) e
        then Inr (self\<lparr>elemCmplx := set_add e (elemCmplx self)\<rparr>)
      else Inl (UnrecognizedVariable e))"

definition classify_explicit :: "pyenv \<Rightarrow> ustr \<Rightarrow> mathnode \<Rightarrow> error + mathnode" where
  "classify_explicit E e self =
     (if e \<in> set get_functions
        then Inr (self\<lparr>elemFct := set_add e (elemFct self)\<rparr>)
      else if isdigit E (remove_char 46 e)
        then Inr (self\<lparr>elemConst := set_add e (elemConst self)\<rparr>)
      else if isalpha E e
        then (if e \<in> set get_functions then Inl (VariableTaken e)
              else Inr (self\<lparr>elemVar := set_add e (elemVar self)\<rparr>))
      else Inl (UnrecognizedVariable e))"

fun classify_loop ::
  "(ustr \<Rightarrow> mathnode \<Rightarrow> error + mathnode) \<Rightarrow> ustr list \<Rightarrow> mathnode \<Rightarrow> error option \<times> mathnode" where
  "classify_loop body [] self = (None, self)"
| "classify_loop body (e # es) self =
     (case body e self of
        Inl err \<Rightarrow> (Some err, self)
      | Inr self' \<Rightarrow> classify_loop body es self')"

text \<open>
  \<open>re.sub(r"(\d+(?:\.\d+)?)(\()", r"\1*\2", expression)\<close>: a number directly followed by
  an opening parenthesis gets a \<open>*\<close> between the two.
\<close>

function sub_implicit_paren :: "pyenv \<Rightarrow> ustr \<Rightarrow> ustr" where
  "sub_implicit_paren E [] = []"
| "sub_implicit_paren E (c # cs) =
     (let d1 = takeWhile (re_digit E) (c # cs);
          r1 = dropWhile (re_digit E) (c # cs);
          d2 = takeWhile (re_digit E) (drop 1 r1);
          r2 = dropWhile (re_digit E) (drop 1 r1)
      in if d1 \<noteq> [] \<and> first_char r1 = Some 46 \<and> d2 \<noteq> [] \<and> first_char r2 = Some 40
           then d1 @ [46] @ d2 @ asc ''*('' @ sub_implicit_paren E (drop 1 r2)
         else if d1 \<noteq> [] \<and> first_char r1 = Some 40
           then d1 @ asc ''*('' @ sub_implicit_paren E (drop 1 r1)
         else c # sub_implicit_paren E cs)"
  by pat_completeness auto
termination
proof (relation "measure (\<lambda>(E, s). length s)")
  show "wf (measure (\<lambda>(E, s). length s))" by simp
next
  fix E :: pyenv and c :: nat and cs d1 r1 d2 r2 :: ustr
  assume r1: "r1 = dropWhile (re_digit E) (c # cs)"
    and r2: "r2 = dropWhile (re_digit E) (drop 1 r1)"
    and m: "d1 \<noteq> [] \<and> first_char r1 = Some 46 \<and> d2 \<noteq> [] \<and> first_char r2 = Some 40"
  have a: "length (drop 1 r2) \<le> length r2" by simp
  have b: "length r2 \<le> length (drop 1 r1)" unfolding r2 by (rule length_dropWhile_le)
  from m have "r1 \<noteq> []" by auto
  then have c: "length (drop 1 r1) < length r1" by (cases r1) auto
  have "length r1 \<le> length (c # cs)" unfolding r1 by (rule length_dropWhile_le)
  with a b c show "((E, drop 1 r2), (E, c # cs)) \<in> measure (\<lambda>(E, s). length s)" by simp
next
  fix E :: pyenv and c :: nat and cs d1 r1 :: ustr
  assume r1: "r1 = dropWhile (re_digit E) (c # cs)"
    and m: "d1 \<noteq> [] \<and> first_char r1 = Some 40"
  from m have "r1 \<noteq> []" by auto
  then have c: "length (drop 1 r1) < length r1" by (cases r1) auto
  have "length r1 \<le> length (c # cs)" unfolding r1 by (rule length_dropWhile_le)
  with c show "((E, drop 1 r1), (E, c # cs)) \<in> measure (\<lambda>(E, s). length s)" by simp
next
  fix E :: pyenv and c :: nat and cs :: ustr
  show "((E, cs), (E, c # cs)) \<in> measure (\<lambda>(E, s). length s)" by simp
qed

text \<open>The steps of \<open>sanatize_expression\<close> that come before the classification.\<close>

definition prepare_expression :: "pyenv \<Rightarrow> ustr \<Rightarrow> ustr" where
  "prepare_expression E expression0 =
     (let expression = remove_char 32 expression0;
          expression = (if list_ex is_superscript expression
                        then replace_superscript_exponents expression else expression);
          mached = match_exact_tokens E expression (map (\<lambda>(k, u, v). u) IRRATIONALS)
      in if any_str mached
         then replace_exact_tokens E expression
                (map (\<lambda>(k, u, v). (u, v)) (filter (\<lambda>(k, u, v). u \<in> set mached) IRRATIONALS))
         else expression)"

definition sanatize_expression :: "pyenv \<Rightarrow> mathnode \<Rightarrow> ustr \<Rightarrow> (error + ustr) \<times> mathnode" where
  "sanatize_expression E self0 expression0 =
     (let expression = prepare_expression E expression0;
          self = self0\<lparr>elemTotal := gather_elements expression\<rparr>;
          self = self\<lparr>elemFct := [], elemConst := [], elemVar := [], elemCmplx := []\<rparr>;
          (failed, self) =
            (if implicit_mult self
             then classify_loop (classify_implicit E expression) (set_iter E (elemTotal self)) self
             else classify_loop (classify_explicit E) (set_iter E (elemTotal self)) self)
      in case failed of
           Some err \<Rightarrow> (Inl err, self)
         | None \<Rightarrow>
             (case find (\<lambda>char. char \<notin> set authorized_symbols) expression of
                Some char \<Rightarrow> (Inl (UnrecognizedSymbol char), self)
              | None \<Rightarrow> (Inr (sub_implicit_paren E expression), self)))"


section \<open>Syntax trees\<close>

text \<open>
  The nodes of Python's \<open>ast\<close> module that the arithmetic fragment needs. A numeric
  \<open>Constant\<close> is kept by the text of its literal. \<open>Path\<close> stands for the attribute and
  subscript chain \<open>ng.nodes['<name>'].<inputs|outputs>[<idx>]\<close> that
  \<open>get_socket_python_api\<close> writes; it is read back as one leaf.
\<close>

datatype operator =
  Add | Sub | Mult | Div | Pow | Mod | FloorDiv | MatMult | LShift | RShift | BitOr | BitXor | BitAnd

datatype unaryop = UAdd | USub | Not | Invert

datatype socket_api = SocketApi ustr bool nat

datatype expr =
    BinOp expr operator expr
  | UnaryOp unaryop expr
  | Call expr "expr list"
  | Name ustr
  | Constant ustr
  | Path socket_api

subsection \<open>Decimal numerals\<close>

function nat_to_digits :: "nat \<Rightarrow> ustr" where
  "nat_to_digits n = (if n < 10 then [48 + n] else nat_to_digits (n div 10) @ [48 + n mod 10])"
  by pat_completeness auto
termination
  by (relation "measure id") auto

declare nat_to_digits.simps [simp del]

definition digits_to_nat :: "ustr \<Rightarrow> nat" where
  "digits_to_nat ds = foldl (\<lambda>acc d. 10 * acc + (d - 48)) 0 ds"

text \<open>The f-string of \<open>get_socket_python_api\<close>.\<close>

fun api_text :: "socket_api \<Rightarrow> ustr" where
  "api_text (SocketApi name is_output idx) =
     asc ''ng.nodes['' @ quoted name @ asc ''].'' @
     (if is_output then asc ''outputs'' else asc ''inputs'') @
     asc ''['' @ nat_to_digits idx @ asc '']''"

subsection \<open>\<open>ast.parse\<close>\<close>

text \<open>
  The parser of the Python standard library is modelled on the arithmetic fragment:
  names, numbers with or without a decimal point, calls, parentheses, the unary operators
  \<open>+\<close> and \<open>-\<close> and the binary operators \<open>+ - * / // % **\<close> with Python's precedences
  (\<open>**\<close> binds tighter than a unary operator on its left and associates to the right).
  There are three answers. \<open>Parsed\<close> is the tree. \<open>Syntax_error\<close> is given only where
  CPython raises \<open>SyntaxError\<close> whatever follows: a number literal with a leading zero or
  run into a name, two operands side by side, a binary operator or a closing parenthesis
  or a comma where an operand must stand, an unbalanced parenthesis, an indented first
  line. \<open>Unsupported\<close> is every text that may be Python outside the fragment: a keyword
  (also \<open>True\<close>, \<open>False\<close>, \<open>None\<close>), a character that is none of the fragment's (so
  attribute access, comparisons, strings, identifiers beyond ASCII), a number literal with
  an exponent, a prefix, an underscore or an imaginary suffix, a tuple (a comma that is
  not between the arguments of a call, empty parentheses), a starred operand. What
  the program does with such a text is not modelled; the functions below
  pass the answer on as \<open>None\<close>. The resource limits of the interpreter (recursion depth,
  the digit limit of integer literals) are not modelled either.
\<close>

datatype 'a parsed = Parsed 'a | Syntax_error | Unsupported

definition and_then :: "'a \<Rightarrow> 'a list parsed \<Rightarrow> 'a list parsed" where
  "and_then t r = (case r of Parsed ts \<Rightarrow> Parsed (t # ts) | Syntax_error \<Rightarrow> Syntax_error
                   | Unsupported \<Rightarrow> Unsupported)"

datatype token =
  TName ustr | TNumber ustr | TPath socket_api | TOp operator | TLParen | TRParen | TComma

definition name_start :: "nat \<Rightarrow> bool" where
  "name_start c = (ascii_lower c \<or> ascii_upper c \<or> c = 95)"

definition name_char :: "nat \<Rightarrow> bool" where
  "name_char c = (name_start c \<or> ascii_digit c)"

text \<open>The reserved words (\<open>keyword.kwlist\<close>).\<close>

definition py_keywords :: "ustr list" where
  "py_keywords = map asc
     [''False'', ''None'', ''True'',
      ''and'', ''as'', ''assert'', ''async'', ''await'', ''break'', ''class'', ''continue'',
      ''def'', ''del'', ''elif'', ''else'', ''except'', ''finally'', ''for'', ''from'',
      ''global'', ''if'', ''import'', ''in'', ''is'', ''lambda'', ''nonlocal'', ''not'', ''or'',
      ''pass'', ''raise'', ''return'', ''try'', ''while'', ''with'', ''yield'']"

text \<open>
  A number literal: with a decimal point it needs a digit; without one it must not
  start with \<open>0\<close> unless it is all zeros.
\<close>

definition valid_number :: "ustr \<Rightarrow> bool" where
  "valid_number lit =
     (if 46 \<in> set lit then list_ex ascii_digit lit
      else lit \<noteq> [] \<and> (first_char lit \<noteq> Some 48 \<or> list_all (\<lambda>c. c = 48) lit))"

text \<open>
  A name character right after the digits of a number. The literal may go on: an
  exponent \<open>e\<close>, an imaginary \<open>j\<close>, an underscore, after a single \<open>0\<close> a prefix \<open>x\<close>, \<open>o\<close>,
  \<open>b\<close>; or one of the keywords that the tokenizer lets follow a number may start there.
  In every other case the tokenizer raises \<open>invalid decimal literal\<close>.
\<close>

definition number_may_continue :: "ustr \<Rightarrow> ustr \<Rightarrow> bool" where
  "number_may_continue lit rest =
     (list_ex (\<lambda>c. c \<in> set (asc ''eEjJ_'')) (take 1 rest)
      \<or> (lit = asc ''0'' \<and> list_ex (\<lambda>c. c \<in> set (asc ''xXoObB'')) (take 1 rest))
      \<or> list_ex (\<lambda>k. prefix k rest)
           (map asc [''and'', ''else'', ''for'', ''if'', ''in'', ''is'', ''not'', ''or'']))"

text \<open>
  The socket path after the name \<open>ng\<close>: the path read and the number of characters it
  takes.
\<close>

definition lex_path :: "ustr \<Rightarrow> (socket_api \<times> nat) option" where
  "lex_path s =
     (if \<not> prefix (asc ''.nodes['' @ [39]) s then None
      else let s1 = drop 8 s;
               name = takeWhile (\<lambda>c. c \<noteq> 39) s1;
               s2 = dropWhile (\<lambda>c. c \<noteq> 39) s1
           in if \<not> prefix ([39] @ asc ''].'') s2 then None
              else let s3 = drop 3 s2;
                       is_output = prefix (asc ''outputs['') s3;
                       s4 = (if is_output then drop 8 s3 else drop 7 s3);
                       digits = takeWhile ascii_digit s4;
                       s5 = dropWhile ascii_digit s4
                   in if (is_output \<or> prefix (asc ''inputs['') s3) \<and> digits \<noteq> []
                         \<and> first_char s5 = Some 93
                      then Some (SocketApi name is_output (digits_to_nat digits),
                                 length s - length s5 + 1)
                      else None)"

function lex :: "ustr \<Rightarrow> token list parsed" where
  "lex [] = Parsed []"
| "lex (c # cs) =
     (if c = 32 then lex cs
      else if name_start c then
        (let name = takeWhile name_char (c # cs); rest = dropWhile name_char (c # cs)
         in if name \<in> set py_keywords then Unsupported
            else (case (if name = asc ''ng'' then lex_path rest else None) of
                    Some (api, n) \<Rightarrow> and_then (TPath api) (lex (drop n rest))
                  | None \<Rightarrow> and_then (TName name) (lex rest)))
      else if ascii_digit c \<or> c = 46 then
        (let d1 = takeWhile ascii_digit (c # cs);
             r1 = dropWhile ascii_digit (c # cs);
             point = (first_char r1 = Some 46);
             lit = (if point then d1 @ [46] @ takeWhile ascii_digit (drop 1 r1) else d1);
             rest = (if point then dropWhile ascii_digit (drop 1 r1) else r1)
         in if \<not> list_ex ascii_digit lit then Unsupported
            else if list_ex name_char (take 1 rest)
            then (if number_may_continue lit rest then Unsupported else Syntax_error)
            else if \<not> valid_number lit then Syntax_error
            else and_then (TNumber lit) (lex rest))
      else if c = 42 then
        (if first_char cs = Some 42 then and_then (TOp Pow) (lex (drop 1 cs))
         else and_then (TOp Mult) (lex cs))
      else if c = 47 then
        (if first_char cs = Some 47 then and_then (TOp FloorDiv) (lex (drop 1 cs))
         else and_then (TOp Div) (lex cs))
      else if c = 43 then and_then (TOp Add) (lex cs)
      else if c = 45 then and_then (TOp Sub) (lex cs)
      else if c = 37 then and_then (TOp Mod) (lex cs)
      else if c = 40 then and_then TLParen (lex cs)
      else if c = 41 then and_then TRParen (lex cs)
      else if c = 44 then and_then TComma (lex cs)
      else Unsupported)"
  by pat_completeness auto
termination
proof (relation "measure length")
  show "wf (measure length)" by simp
next
  fix c :: nat and cs name rest :: ustr and x2 :: "socket_api \<times> nat" and x y
  assume "name_start c" "rest = dropWhile name_char (c # cs)"
  then have "length rest \<le> length cs"
    by (simp add: name_char_def length_dropWhile_le)
  then show "(drop y rest, c # cs) \<in> measure length" by simp
next
  fix c :: nat and cs name rest :: ustr
  assume "name_start c" "rest = dropWhile name_char (c # cs)"
  then have "length rest \<le> length cs"
    by (simp add: name_char_def length_dropWhile_le)
  then show "(rest, c # cs) \<in> measure length" by simp
next
  fix c :: nat and cs d1 r1 lit rest :: ustr and point :: bool
  assume c: "ascii_digit c \<or> c = 46"
    and r1: "r1 = dropWhile ascii_digit (c # cs)"
    and p: "point = (first_char r1 = Some 46)"
    and rest: "rest = (if point then dropWhile ascii_digit (drop 1 r1) else r1)"
  have le: "length r1 \<le> length (c # cs)" unfolding r1 by (rule length_dropWhile_le)
  show "(rest, c # cs) \<in> measure length"
  proof (cases point)
    case True
    with p have "r1 \<noteq> []" by auto
    then have "length (drop 1 r1) < length r1" by (cases r1) auto
    moreover have "length (dropWhile ascii_digit (drop 1 r1)) \<le> length (drop 1 r1)"
      by (rule length_dropWhile_le)
    ultimately show ?thesis using True rest le by simp
  next
    case False
    with p r1 have "ascii_digit c" using c by (auto split: if_splits)
    with r1 have "length r1 \<le> length cs" by (simp add: length_dropWhile_le)
    with False rest show ?thesis by simp
  qed
qed simp_all

text \<open>
  Parsing by operator precedence, one token at a time. The state is the stack of
  finished operands, the stack of pending operators and open parentheses, and whether
  an operand is expected next. An open parenthesis of a call holds the callee and the
  arguments read so far.
\<close>

datatype stack_item = SBin operator | SUn unaryop | SParen | SCall expr "expr list"

fun precedence :: "operator \<Rightarrow> nat" where
  "precedence Add = 1"
| "precedence Sub = 1"
| "precedence Mult = 2"
| "precedence Div = 2"
| "precedence FloorDiv = 2"
| "precedence Mod = 2"
| "precedence Pow = 4"
| "precedence _ = 0"

definition unary_precedence :: nat where
  "unary_precedence = 3"

fun apply_item :: "stack_item \<Rightarrow> expr list \<Rightarrow> expr list option" where
  "apply_item (SBin op) (r # l # out) = Some (BinOp l op r # out)"
| "apply_item (SUn u) (e # out) = Some (UnaryOp u e # out)"
| "apply_item _ _ = None"

text \<open>A binary operator arrives: the pending operators that bind tighter are applied first.\<close>

fun reduce_for :: "operator \<Rightarrow> expr list \<Rightarrow> stack_item list \<Rightarrow> (expr list \<times> stack_item list) option" where
  "reduce_for op out (SBin op2 # ops) =
     (if precedence op2 > precedence op \<or> (precedence op2 = precedence op \<and> op \<noteq> Pow)
      then (case apply_item (SBin op2) out of None \<Rightarrow> None
            | Some out' \<Rightarrow> reduce_for op out' ops)
      else Some (out, SBin op2 # ops))"
| "reduce_for op out (SUn u # ops) =
     (if unary_precedence > precedence op
      then (case apply_item (SUn u) out of None \<Rightarrow> None
            | Some out' \<Rightarrow> reduce_for op out' ops)
      else Some (out, SUn u # ops))"
| "reduce_for op out ops = Some (out, ops)"

text \<open>A comma, a closing parenthesis or the end: every pending operator is applied.\<close>

fun reduce_all :: "expr list \<Rightarrow> stack_item list \<Rightarrow> (expr list \<times> stack_item list) option" where
  "reduce_all out (SBin op2 # ops) =
     (case apply_item (SBin op2) out of None \<Rightarrow> None | Some out' \<Rightarrow> reduce_all out' ops)"
| "reduce_all out (SUn u # ops) =
     (case apply_item (SUn u) out of None \<Rightarrow> None | Some out' \<Rightarrow> reduce_all out' ops)"
| "reduce_all out ops = Some (out, ops)"

type_synonym parser_state = "expr list \<times> stack_item list \<times> bool"

text \<open>
  Where an operand is expected: an operand, a sign, an open parenthesis, or the
  parenthesis that closes a call after no argument or after the comma of the last one.
  A star there is a starred operand and empty parentheses are the empty tuple.
\<close>

fun parse_operand :: "token \<Rightarrow> expr list \<Rightarrow> stack_item list \<Rightarrow> parser_state parsed" where
  "parse_operand (TName n) out ops = Parsed (Name n # out, ops, False)"
| "parse_operand (TNumber lit) out ops = Parsed (Constant lit # out, ops, False)"
| "parse_operand (TPath api) out ops = Parsed (Path api # out, ops, False)"
| "parse_operand (TOp Add) out ops = Parsed (out, SUn UAdd # ops, True)"
| "parse_operand (TOp Sub) out ops = Parsed (out, SUn USub # ops, True)"
| "parse_operand (TOp Mult) out ops = Unsupported"
| "parse_operand (TOp Pow) out ops = Unsupported"
| "parse_operand TLParen out ops = Parsed (out, SParen # ops, True)"
| "parse_operand TRParen out (SCall f args # ops) = Parsed (Call f args # out, ops, False)"
| "parse_operand TRParen out (SParen # ops) = Unsupported"
| "parse_operand _ out ops = Syntax_error"

text \<open>
  After an operand: a binary operator, the open parenthesis of a call, a comma between
  the arguments of a call, a closing parenthesis. A comma anywhere else makes a tuple.
\<close>

fun parse_operator :: "token \<Rightarrow> expr list \<Rightarrow> stack_item list \<Rightarrow> parser_state parsed" where
  "parse_operator (TOp op) out ops =
     (case reduce_for op out ops of None \<Rightarrow> Syntax_error
      | Some (out', ops') \<Rightarrow> Parsed (out', SBin op # ops', True))"
| "parse_operator TLParen (f # out) ops = Parsed (out, SCall f [] # ops, True)"
| "parse_operator TComma out ops =
     (case reduce_all out ops of
        Some (e # out', SCall f args # ops') \<Rightarrow> Parsed (out', SCall f (args @ [e]) # ops', True)
      | Some (e # out', SParen # ops') \<Rightarrow> Unsupported
      | Some (e # out', []) \<Rightarrow> Unsupported
      | _ \<Rightarrow> Syntax_error)"
| "parse_operator TRParen out ops =
     (case reduce_all out ops of
        Some (e # out', SParen # ops') \<Rightarrow> Parsed (e # out', ops', False)
      | Some (e # out', SCall f args # ops') \<Rightarrow> Parsed (Call f (args @ [e]) # out', ops', False)
      | _ \<Rightarrow> Syntax_error)"
| "parse_operator _ out ops = Syntax_error"

fun parse_step :: "token \<Rightarrow> parser_state \<Rightarrow> parser_state parsed" where
  "parse_step t (out, ops, expect_operand) =
     (if expect_operand then parse_operand t out ops else parse_operator t out ops)"

fun parse_tokens :: "token list \<Rightarrow> parser_state \<Rightarrow> expr parsed" where
  "parse_tokens [] (out, ops, expect_operand) =
     (if expect_operand then Syntax_error
      else (case reduce_all out ops of Some ([e], []) \<Rightarrow> Parsed e | _ \<Rightarrow> Syntax_error))"
| "parse_tokens (t # ts) st =
     (case parse_step t st of
        Parsed st' \<Rightarrow> parse_tokens ts st'
      | Syntax_error \<Rightarrow> Syntax_error
      | Unsupported \<Rightarrow> Unsupported)"

text \<open>
  \<open>ast.parse(source, mode='eval')\<close>: one expression. A text with no token is a
  \<open>SyntaxError\<close> (the end is met where an operand must stand), and so is a text that
  starts with a blank (its \<open>IndentationError\<close>).
\<close>

definition ast_parse :: "ustr \<Rightarrow> expr parsed" where
  "ast_parse source =
     (case lex source of
        Parsed toks \<Rightarrow>
          if first_char source = Some 32 then Syntax_error
          else parse_tokens toks ([], [], True)
      | Syntax_error \<Rightarrow> Syntax_error
      | Unsupported \<Rightarrow> Unsupported)"

subsection \<open>\<open>FunctionTransformer\<close>\<close>

text \<open>The \<open>match node.op\<close> of \<open>visit_BinOp\<close>; \<open>None\<close> is the \<open>NotImplementedError\<close>.\<close>

fun op_function :: "operator \<Rightarrow> ustr option" where
  "op_function Add = Some (asc ''add'')"
| "op_function Sub = Some (asc ''subtract'')"
| "op_function Mult = Some (asc ''mult'')"
| "op_function Div = Some (asc ''div'')"
| "op_function Pow = Some (asc ''exp'')"
| "op_function Mod = Some (asc ''modulo'')"
| "op_function FloorDiv = Some (asc ''floordiv'')"
| "op_function _ = None"

text \<open>
  \<open>visit\<close> dispatches on the class of the node: \<open>visit_BinOp\<close>, \<open>visit_Call\<close>,
  \<open>visit_Name\<close>, \<open>visit_Constant\<close>, and \<open>generic_visit\<close> for every class without a visitor
  (here \<open>UnaryOp\<close>), which visits the children and keeps the node. The second component
  is \<open>self.functions_used\<close>.
\<close>

fun visit :: "expr \<Rightarrow> ustr list \<Rightarrow> (expr \<times> ustr list) option"
  and visit_list :: "expr list \<Rightarrow> ustr list \<Rightarrow> (expr list \<times> ustr list) option" where
  "visit (BinOp left op right) used =
     (case visit left used of None \<Rightarrow> None
      | Some (left', used1) \<Rightarrow>
          (case visit right used1 of None \<Rightarrow> None
           | Some (right', used2) \<Rightarrow>
               (case op_function op of None \<Rightarrow> None
                | Some func_name \<Rightarrow>
                    Some (Call (Name func_name) [left', right'], set_add func_name used2))))"
| "visit (Call func args) used =
     (let used0 = (case func of Name fid \<Rightarrow> set_add fid used | _ \<Rightarrow> used)
      in case visit func used0 of None \<Rightarrow> None
         | Some (func', used1) \<Rightarrow>
             (case visit_list args used1 of None \<Rightarrow> None
              | Some (args', used2) \<Rightarrow> Some (Call func' args', used2)))"
| "visit (UnaryOp u opd) used =
     (case visit opd used of None \<Rightarrow> None
      | Some (opd', used1) \<Rightarrow> Some (UnaryOp u opd', used1))"
| "visit (Name n) used = Some (Name n, used)"
| "visit (Constant c) used = Some (Constant c, used)"
| "visit (Path p) used = Some (Path p, used)"
| "visit_list [] used = Some ([], used)"
| "visit_list (e # es) used =
     (case visit e used of None \<Rightarrow> None
      | Some (e', used1) \<Rightarrow>
          (case visit_list es used1 of None \<Rightarrow> None
           | Some (es', used2) \<Rightarrow> Some (e' # es', used2)))"

subsection \<open>\<open>ast.unparse\<close>\<close>

text \<open>
  The precedence levels of the unparser that matter here: \<open>TEST\<close> 4 (the default),
  \<open>ARITH\<close> 13, \<open>TERM\<close> 14, \<open>FACTOR\<close> 15, \<open>POWER\<close> 16, \<open>ATOM\<close> 18; \<open>NOT\<close> is 7. A node is
  put in parentheses when the level its parent sets is above its own.
\<close>

fun binop_symbol :: "operator \<Rightarrow> ustr" where
  "binop_symbol Add = asc ''+''"
| "binop_symbol Sub = asc ''-''"
| "binop_symbol Mult = asc ''*''"
| "binop_symbol Div = asc ''/''"
| "binop_symbol Pow = asc ''**''"
| "binop_symbol Mod = asc ''%''"
| "binop_symbol FloorDiv = asc ''//''"
| "binop_symbol MatMult = asc ''@''"
| "binop_symbol LShift = asc ''<<''"
| "binop_symbol RShift = asc ''>>''"
| "binop_symbol BitOr = asc ''|''"
| "binop_symbol BitXor = asc ''^''"
| "binop_symbol BitAnd = asc ''&''"

fun binop_precedence :: "operator \<Rightarrow> nat" where
  "binop_precedence Add = 13"
| "binop_precedence Sub = 13"
| "binop_precedence Mult = 14"
| "binop_precedence Div = 14"
| "binop_precedence Mod = 14"
| "binop_precedence FloorDiv = 14"
| "binop_precedence MatMult = 14"
| "binop_precedence Pow = 16"
| "binop_precedence LShift = 12"
| "binop_precedence RShift = 12"
| "binop_precedence BitAnd = 11"
| "binop_precedence BitXor = 10"
| "binop_precedence BitOr = 9"

fun unop_symbol :: "unaryop \<Rightarrow> ustr" where
  "unop_symbol UAdd = asc ''+''"
| "unop_symbol USub = asc ''-''"
| "unop_symbol Invert = asc ''~''"
| "unop_symbol Not = asc ''not ''"

fun unop_precedence :: "unaryop \<Rightarrow> nat" where
  "unop_precedence Not = 7"
| "unop_precedence _ = 15"

definition require_parens :: "nat \<Rightarrow> nat \<Rightarrow> ustr \<Rightarrow> ustr" where
  "require_parens level own text = (if level > own then asc ''('' @ text @ asc '')'' else text)"

text \<open>\<open>repr\<close> of the number a literal denotes.\<close>

definition number_repr :: "pyenv \<Rightarrow> ustr \<Rightarrow> ustr" where
  "number_repr E lit =
     (if 46 \<in> set lit then float_repr E lit
      else if list_all (\<lambda>c. c = 48) lit then asc ''0'' else lit)"

fun join_comma :: "ustr list \<Rightarrow> ustr" where
  "join_comma [] = []"
| "join_comma [x] = x"
| "join_comma (x # xs) = x @ asc '', '' @ join_comma xs"

fun unparse_at :: "pyenv \<Rightarrow> nat \<Rightarrow> expr \<Rightarrow> ustr" where
  "unparse_at E level (BinOp left op right) =
     require_parens level (binop_precedence op)
       (unparse_at E (if op = Pow then binop_precedence op + 1 else binop_precedence op) left
        @ asc '' '' @ binop_symbol op @ asc '' '' @
        unparse_at E (if op = Pow then binop_precedence op else binop_precedence op + 1) right)"
| "unparse_at E level (UnaryOp u opd) =
     require_parens level (unop_precedence u)
       (unop_symbol u @ unparse_at E (unop_precedence u) opd)"
| "unparse_at E level (Call func args) =
     unparse_at E 18 func @ asc ''('' @ join_comma (map (unparse_at E 4) args) @ asc '')''"
| "unparse_at E level (Name n) = n"
| "unparse_at E level (Constant c) = number_repr E c"
| "unparse_at E level (Path p) = api_text p"

definition unparse :: "pyenv \<Rightarrow> expr \<Rightarrow> ustr" where
  "unparse E node = unparse_at E 4 node"

subsection \<open>\<open>transform_expression\<close>\<close>

text \<open>
  \<open>None\<close> is a text outside the modelled fragment of Python. Every exception of the
  \<open>try\<close> block is answered with the same message.
\<close>

definition transform_expression :: "pyenv \<Rightarrow> ustr \<Rightarrow> (error + ustr) option" where
  "transform_expression E math_express =
     (case ast_parse math_express of
        Unsupported \<Rightarrow> None
      | Syntax_error \<Rightarrow> Some (Inl ExpressionNotRecognized)
      | Parsed tree \<Rightarrow>
          (case visit tree [] of
             None \<Rightarrow> Some (Inl ExpressionNotRecognized)
           | Some (transformed_node, functions_used) \<Rightarrow>
               (case find (\<lambda>fname. fname \<notin> set get_functions) (set_iter E functions_used) of
                  Some fname \<Rightarrow> Some (Inl (FunctionNotRecognized fname))
                | None \<Rightarrow> Some (Inr (unparse E transformed_node)))))"

section \<open>The graph backend\<close>

text \<open>
  The sockets of a node, as \<open>node.inputs\<close> and \<open>node.outputs\<close> list them. The Group Input
  node shows the boundary input sockets followed by the virtual socket; the Group Output
  node shows the result socket and its own virtual socket. Of an interior node the
  sockets that the source touches are listed (one output; three inputs of a math or
  clamp node, four of a mix node), each known by its index.
\<close>

definition virtual_socket :: socket where
  "virtual_socket = \<lparr>sock_identifier = 0, sock_name = [], sock_type = CUSTOM\<rparr>"

definition builtin_socket :: "nat \<Rightarrow> socket" where
  "builtin_socket i = \<lparr>sock_identifier = i, sock_name = [], sock_type = FLOAT_SOCKET\<rparr>"

definition node_outputs :: "node_tree \<Rightarrow> node \<Rightarrow> socket list" where
  "node_outputs ng n =
     (case node_type n of
        GROUP_INPUT \<Rightarrow> inputs ng @ [virtual_socket]
      | GROUP_OUTPUT \<Rightarrow> []
      | _ \<Rightarrow> [builtin_socket 0])"

definition node_inputs :: "node_tree \<Rightarrow> node \<Rightarrow> socket list" where
  "node_inputs ng n =
     (case node_type n of
        GROUP_INPUT \<Rightarrow> []
      | VALUE \<Rightarrow> []
      | GROUP_OUTPUT \<Rightarrow> [builtin_socket 0, virtual_socket]
      | MIX \<Rightarrow> map builtin_socket [0, 1, 2, 3]
      | _ \<Rightarrow> map builtin_socket [0, 1, 2])"

text \<open>\<open>node.outputs[idx]\<close> and \<open>node.inputs[idx]\<close> as handles; \<open>None\<close> is the \<open>IndexError\<close>.\<close>

definition output_socket :: "node_tree \<Rightarrow> node \<Rightarrow> nat \<Rightarrow> sockref option" where
  "output_socket ng n idx =
     (if idx < length (node_outputs ng n)
      then Some (if node_type n = GROUP_INPUT \<and> idx < length (inputs ng)
                 then GroupIn (sock_identifier (inputs ng ! idx))
                 else NodeOut (node_id n) idx)
      else None)"

definition input_socket :: "node_tree \<Rightarrow> node \<Rightarrow> nat \<Rightarrow> sockref option" where
  "input_socket ng n idx =
     (if idx < length (node_inputs ng n) then Some (NodeIn (node_id n) idx) else None)"

text \<open>
  \<open>ng.nodes[name]\<close> (\<open>None\<close> is the \<open>KeyError\<close>), \<open>ng.nodes.active\<close>, \<open>ng.nodes.new\<close> and
  \<open>ng.nodes.remove\<close>. A new node gets a fresh identity and the default name of its
  class; removing a node removes the links at its sockets and, if it was the active
  node, leaves no active node.
\<close>

definition nodes_get :: "node_tree \<Rightarrow> ustr \<Rightarrow> node option" where
  "nodes_get ng name = find (\<lambda>n. node_name n = name) (nodes ng)"

definition active_node :: "node_tree \<Rightarrow> node option" where
  "active_node ng =
     (case active ng of None \<Rightarrow> None
      | Some i \<Rightarrow> find (\<lambda>n. node_id n = i) (nodes ng))"

definition nodes_new :: "node_type \<Rightarrow> ustr \<Rightarrow> node_tree \<Rightarrow> nat \<times> node_tree" where
  "nodes_new ty name ng =
     (fresh ng,
      ng\<lparr>nodes := nodes ng @ [\<lparr>node_id = fresh ng, node_name = name, node_type = ty,
                                 node_setting = []\<rparr>],
         fresh := Suc (fresh ng)\<rparr>)"

fun at_node :: "nat \<Rightarrow> sockref \<Rightarrow> bool" where
  "at_node i (GroupIn s) = False"
| "at_node i (NodeOut j k) = (i = j)"
| "at_node i (NodeIn j k) = (i = j)"

definition nodes_remove :: "nat \<Rightarrow> node_tree \<Rightarrow> node_tree" where
  "nodes_remove i ng =
     ng\<lparr>nodes := filter (\<lambda>n. node_id n \<noteq> i) (nodes ng),
        links := filter (\<lambda>l. \<not> at_node i (fst l) \<and> \<not> at_node i (snd l)) (links ng),
        active := (if active ng = Some i then None else active ng)\<rparr>"

definition set_node :: "nat \<Rightarrow> (node \<Rightarrow> node) \<Rightarrow> node_tree \<Rightarrow> node_tree" where
  "set_node i f ng = ng\<lparr>nodes := map (\<lambda>n. if node_id n = i then f n else n) (nodes ng)\<rparr>"

text \<open>
  Modelled from the spec: the helpers \<open>create_socket\<close>, \<open>remove_socket\<close> and
  \<open>link_sockets\<close> of module \<open>boiler\<close>, which is not in the sources. The spec gives them as
  \<open>add_boundary_input(name, type)\<close>, \<open>remove_boundary_input(index)\<close> and
  \<open>connect(SocketHandle, SocketHandle)\<close>: a new boundary input is appended with an
  identity of its own, removing one takes the item at the index (and the links at it),
  connecting adds a link.
\<close>

definition create_socket :: "ustr \<Rightarrow> node_tree \<Rightarrow> node_tree" where
  "create_socket socket_name ng =
     ng\<lparr>inputs := inputs ng @ [\<lparr>sock_identifier = fresh ng, sock_name = socket_name,
                                  sock_type = FLOAT_SOCKET\<rparr>],
        fresh := Suc (fresh ng)\<rparr>"

definition remove_socket :: "nat \<Rightarrow> node_tree \<Rightarrow> node_tree" where
  "remove_socket idx ng =
     (if idx < length (inputs ng)
      then ng\<lparr>inputs := take idx (inputs ng) @ drop (Suc idx) (inputs ng),
              links := filter (\<lambda>l. fst l \<noteq> GroupIn (sock_identifier (inputs ng ! idx)))
                         (links ng)\<rparr>
      else ng)"

definition link_sockets :: "sockref \<Rightarrow> sockref \<Rightarrow> node_tree \<Rightarrow> node_tree" where
  "link_sockets sock1 sock2 ng = ng\<lparr>links := links ng @ [(sock1, sock2)]\<rparr>"

section \<open>\<open>get_socket_python_api\<close>\<close>

text \<open>
  The position of the first socket with the identifier in a list, and the two loops
  of the function: a hit among the outputs overrides a hit among the inputs. \<open>None\<close> is
  the failed assertion.
\<close>

fun find_index_of :: "nat \<Rightarrow> socket list \<Rightarrow> nat option" where
  "find_index_of ident [] = None"
| "find_index_of ident (s # ss) =
     (if sock_identifier s = ident then Some 0 else map_option Suc (find_index_of ident ss))"

definition get_socket_python_api :: "node_tree \<Rightarrow> node \<Rightarrow> nat \<Rightarrow> socket_api option" where
  "get_socket_python_api ng n ident =
     (case find_index_of ident (node_outputs ng n) of
        Some idx \<Rightarrow> Some (SocketApi (node_name n) True idx)
      | None \<Rightarrow>
          (case find_index_of ident (node_inputs ng n) of
             Some idx \<Rightarrow> Some (SocketApi (node_name n) False idx)
           | None \<Rightarrow> None))"

section \<open>The primitives of \<open>NodeSetter\<close>\<close>

text \<open>
  The values that the execution of a function expression handles: a socket, a number
  that was not replaced by a socket path, a registry function.
\<close>

datatype pyval = VSocket sockref | VNumber ustr | VFunction ustr

text \<open>
  The exceptions of the execution. CPython words the two arity errors
  \<open>NodeSetter.f() missing k required positional argument(s): ...\<close> and
  \<open>NodeSetter.f() takes n positional arguments but m were given\<close>; they are kept by
  the function name and the count the source later cuts out of the text.
\<close>

datatype pyexc =
    MissingArguments ustr nat
  | ExtraArguments ustr
  | OtherTypeError
  | TupleObjectError
  | OtherException

type_synonym 'a result = "(pyexc + 'a) \<times> node_tree"

text \<open>
  \<open>link_sockets\<close> with an operand of a primitive: only a socket can be connected.
  \<open>if (sock2)\<close>: an absent operand and the number zero are skipped.
\<close>

definition link_value :: "pyval \<Rightarrow> sockref \<Rightarrow> node_tree \<Rightarrow> unit result" where
  "link_value v target ng =
     (case v of VSocket s \<Rightarrow> (Inr (), link_sockets s target ng)
      | _ \<Rightarrow> (Inl OtherException, ng))"

definition is_zero_number :: "pyval \<Rightarrow> bool" where
  "is_zero_number v =
     (case v of VNumber lit \<Rightarrow> list_all (\<lambda>c. c = 48 \<or> c = 46 \<or> c = 45 \<or> c = 43) lit
      | _ \<Rightarrow> False)"

definition link_optional :: "pyval option \<Rightarrow> sockref \<Rightarrow> node_tree \<Rightarrow> unit result" where
  "link_optional v target ng =
     (case v of None \<Rightarrow> (Inr (), ng)
      | Some x \<Rightarrow> if is_zero_number x then (Inr (), ng) else link_value x target ng)"

text \<open>
  The step every primitive starts with: \<open>sock1.id_data\<close> must be a socket's tree, then
  a node of the class is created, its setting is assigned and it becomes the active
  node.
\<close>

definition new_active_node :: "node_type \<Rightarrow> ustr \<Rightarrow> ustr \<Rightarrow> node_tree \<Rightarrow> nat \<times> node_tree" where
  "new_active_node ty name setting ng0 =
     (let (i, ng) = nodes_new ty name ng0;
          ng = set_node i (\<lambda>n. n\<lparr>node_setting := setting\<rparr>) ng
      in (i, ng\<lparr>active := Some i\<rparr>))"

definition floatmath :: "ustr \<Rightarrow> pyval \<Rightarrow> pyval option \<Rightarrow> pyval option \<Rightarrow> node_tree \<Rightarrow> pyval result" where
  "floatmath operation_type sock1 sock2 sock3 ng0 =
     (case sock1 of
        VSocket s1 \<Rightarrow>
          (let (i, ng) = new_active_node MATH (asc ''Math'') operation_type ng0;
               ng = link_sockets s1 (NodeIn i 0) ng
           in case link_optional sock2 (NodeIn i 1) ng of
                (Inl e, ng) \<Rightarrow> (Inl e, ng)
              | (Inr u, ng) \<Rightarrow>
                  (case link_optional sock3 (NodeIn i 2) ng of
                     (Inl e, ng) \<Rightarrow> (Inl e, ng)
                   | (Inr u, ng) \<Rightarrow> (Inr (VSocket (NodeOut i 0)), ng)))
      | _ \<Rightarrow> (Inl OtherException, ng0))"

definition floatmath_nroot :: "pyval \<Rightarrow> pyval \<Rightarrow> node_tree \<Rightarrow> pyval result" where
  "floatmath_nroot sock1 sock2 ng0 =
     (case sock1 of
        VSocket s1 \<Rightarrow>
          (let (d, ng) = new_active_node MATH (asc ''Math'') (asc ''DIVIDE'') ng0
           in case link_value sock2 (NodeIn d 1) ng of
                (Inl e, ng) \<Rightarrow> (Inl e, ng)
              | (Inr u, ng) \<Rightarrow>
                  (let (p, ng) = new_active_node MATH (asc ''Math'') (asc ''POWER'') ng;
                       ng = link_sockets s1 (NodeIn p 0) ng;
                       ng = link_sockets (NodeOut d 0) (NodeIn p 1) ng
                   in (Inr (VSocket (NodeOut p 0)), ng)))
      | _ \<Rightarrow> (Inl OtherException, ng0))"

definition mix_node :: "ustr \<Rightarrow> pyval \<Rightarrow> pyval \<Rightarrow> pyval \<Rightarrow> node_tree \<Rightarrow> pyval result" where
  "mix_node data_type sock1 sock2 sock3 ng0 =
     (case sock1 of
        VSocket s1 \<Rightarrow>
          (let (i, ng) = new_active_node MIX (asc ''Mix'') data_type ng0;
               ng = link_sockets s1 (NodeIn i 0) ng
           in if data_type \<noteq> asc ''FLOAT'' then (Inl OtherException, ng)
              else case link_value sock2 (NodeIn i 2) ng of
                (Inl e, ng) \<Rightarrow> (Inl e, ng)
              | (Inr u, ng) \<Rightarrow>
                  (case link_value sock3 (NodeIn i 3) ng of
                     (Inl e, ng) \<Rightarrow> (Inl e, ng)
                   | (Inr u, ng) \<Rightarrow> (Inr (VSocket (NodeOut i 0)), ng)))
      | _ \<Rightarrow> (Inl OtherException, ng0))"

definition floatclamp :: "ustr \<Rightarrow> pyval \<Rightarrow> pyval \<Rightarrow> pyval \<Rightarrow> node_tree \<Rightarrow> pyval result" where
  "floatclamp clamp_type sock1 sock2 sock3 ng0 =
     (case sock1 of
        VSocket s1 \<Rightarrow>
          (let (i, ng) = new_active_node CLAMP (asc ''Clamp'') clamp_type ng0;
               ng = link_sockets s1 (NodeIn i 0) ng
           in case link_value sock2 (NodeIn i 1) ng of
                (Inl e, ng) \<Rightarrow> (Inl e, ng)
              | (Inr u, ng) \<Rightarrow>
                  (case link_value sock3 (NodeIn i 2) ng of
                     (Inl e, ng) \<Rightarrow> (Inl e, ng)
                   | (Inr u, ng) \<Rightarrow> (Inr (VSocket (NodeOut i 0)), ng)))
      | _ \<Rightarrow> (Inl OtherException, ng0))"

text \<open>
  The public class methods: the number of socket parameters and the body. \<open>power\<close> and
  \<open>mix\<close> call \<open>exp\<close> and \<open>lerp\<close>; \<open>floordiv\<close> is \<open>floor(div(sock1, sock2))\<close>.
\<close>

datatype body =
  Float_math ustr | Float_nroot | Float_mix | Float_clamp ustr | Floor_of_div

definition NodeSetter_methods :: "(ustr \<times> nat \<times> body) list" where
  "NodeSetter_methods =
     [(asc ''add'', 2, Float_math (asc ''ADD'')),
      (asc ''subtract'', 2, Float_math (asc ''SUBTRACT'')),
      (asc ''mult'', 2, Float_math (asc ''MULTIPLY'')),
      (asc ''div'', 2, Float_math (asc ''DIVIDE'')),
      (asc ''exp'', 2, Float_math (asc ''POWER'')),
      (asc ''power'', 2, Float_math (asc ''POWER'')),
      (asc ''log'', 2, Float_math (asc ''LOGARITHM'')),
      (asc ''sqrt'', 1, Float_math (asc ''SQRT'')),
      (asc ''invsqrt'', 1, Float_math (asc ''INVERSE_SQRT'')),
      (asc ''nroot'', 2, Float_nroot),
      (asc ''abs'', 1, Float_math (asc ''ABSOLUTE'')),
      (asc ''min'', 2, Float_math (asc ''MINIMUM'')),
      (asc ''max'', 2, Float_math (asc ''MAXIMUM'')),
      (asc ''round'', 1, Float_math (asc ''ROUND'')),
      (asc ''floor'', 1, Float_math (asc ''FLOOR'')),
      (asc ''ceil'', 1, Float_math (asc ''CEIL'')),
      (asc ''trunc'', 1, Float_math (asc ''TRUNC'')),
      (asc ''modulo'', 2, Float_math (asc ''MODULO'')),
      (asc ''wrap'', 3, Float_math (asc ''WRAP'')),
      (asc ''snap'', 2, Float_math (asc ''SNAP'')),
      (asc ''floordiv'', 2, Floor_of_div),
      (asc ''sin'', 1, Float_math (asc ''SINE'')),
      (asc ''cos'', 1, Float_math (asc ''COSINE'')),
      (asc ''tan'', 1, Float_math (asc ''TANGENT'')),
      (asc ''asin'', 1, Float_math (asc ''ARCSINE'')),
      (asc ''acos'', 1, Float_math (asc ''ARCCOSINE'')),
      (asc ''atan'', 1, Float_math (asc ''ARCTANGENT'')),
      (asc ''hsin'', 1, Float_math (asc ''SINH'')),
      (asc ''hcos'', 1, Float_math (asc ''COSH'')),
      (asc ''htan'', 1, Float_math (asc ''TANH'')),
      (asc ''rad'', 1, Float_math (asc ''RADIANS'')),
      (asc ''deg'', 1, Float_math (asc ''DEGREES'')),
      (asc ''lerp'', 3, Float_mix),
      (asc ''mix'', 3, Float_mix),
      (asc ''clamp'', 3, Float_clamp (asc ''MINMAX'')),
      (asc ''clampr'', 3, Float_clamp (asc ''RANGE''))]"

fun nth_option :: "'a list \<Rightarrow> nat \<Rightarrow> 'a option" where
  "nth_option [] i = None"
| "nth_option (x # xs) 0 = Some x"
| "nth_option (x # xs) (Suc i) = nth_option xs i"

text \<open>The body of a method on operands whose number is the number of its parameters.\<close>

fun run_body :: "body \<Rightarrow> pyval list \<Rightarrow> node_tree \<Rightarrow> pyval result" where
  "run_body (Float_math operation_type) (sock1 # rest) ng =
     floatmath operation_type sock1 (nth_option rest 0) (nth_option rest 1) ng"
| "run_body Float_nroot [sock1, sock2] ng = floatmath_nroot sock1 sock2 ng"
| "run_body Float_mix [sock1, sock2, sock3] ng = mix_node (asc ''FLOAT'') sock1 sock2 sock3 ng"
| "run_body (Float_clamp clamp_type) [sock1, sock2, sock3] ng =
     floatclamp clamp_type sock1 sock2 sock3 ng"
| "run_body Floor_of_div [sock1, sock2] ng =
     (case floatmath (asc ''DIVIDE'') sock1 (Some sock2) None ng of
        (Inl e, ng') \<Rightarrow> (Inl e, ng')
      | (Inr q, ng') \<Rightarrow> floatmath (asc ''FLOOR'') q None None ng')"
| "run_body b args ng = (Inl OtherTypeError, ng)"

text \<open>
  The call of a value. A registry function checks the number of its operands first, as
  Python does before the body runs; any other value is not callable.
\<close>

definition call_function :: "ustr \<Rightarrow> pyval list \<Rightarrow> node_tree \<Rightarrow> pyval result" where
  "call_function fname args ng =
     (case map_of NodeSetter_methods fname of
        None \<Rightarrow> (Inl OtherException, ng)
      | Some (arity, b) \<Rightarrow>
          if length args < arity then (Inl (MissingArguments fname (arity - length args)), ng)
          else if length args > arity then (Inl (ExtraArguments fname), ng)
          else run_body b args ng)"

definition call_value :: "pyval \<Rightarrow> pyval list \<Rightarrow> node_tree \<Rightarrow> pyval result" where
  "call_value f args ng =
     (case f of VFunction fname \<Rightarrow> call_function fname args ng
      | _ \<Rightarrow> (Inl OtherTypeError, ng))"

section \<open>\<open>exec\<close> in the namespace of the registry\<close>

text \<open>
  The evaluation of a tree in the namespace that holds \<open>ng\<close> and the registry
  functions. The callee is evaluated first, then the arguments from left to right. A
  socket path is resolved against the node tree; a unary sign keeps a number a number and
  is a \<open>TypeError\<close> on a socket or a function. A name outside the registry that holds
  a digit is a \<open>NameError\<close>: no builtin of Python has such a name. \<open>None\<close> is what the
  model does not cover: any other name outside the registry (it may be \<open>ng\<close> or a
  builtin; the variables of an expression are replaced by socket paths before
  \<open>exec\<close>), arithmetic between values (the function expression holds no binary operator,
  see \<open>visit\<close>), the operators \<open>not\<close> and \<open>~\<close>.
\<close>

fun eval :: "expr \<Rightarrow> node_tree \<Rightarrow> (pyval result) option"
  and eval_args :: "expr list \<Rightarrow> node_tree \<Rightarrow> ((pyval list) result) option" where
  "eval (Constant c) ng = Some (Inr (VNumber c), ng)"
| "eval (Name n) ng =
     (if n \<in> set get_functions then Some (Inr (VFunction n), ng)
      else if list_ex ascii_digit n then Some (Inl OtherException, ng)
      else None)"
| "eval (Path (SocketApi name is_output idx)) ng =
     (case nodes_get ng name of
        None \<Rightarrow> Some (Inl OtherException, ng)
      | Some n \<Rightarrow>
          (case (if is_output then output_socket ng n idx else input_socket ng n idx) of
             None \<Rightarrow> Some (Inl OtherException, ng)
           | Some s \<Rightarrow> Some (Inr (VSocket s), ng)))"
| "eval (UnaryOp u e) ng =
     (if u \<noteq> USub \<and> u \<noteq> UAdd then None
      else (case eval e ng of
              None \<Rightarrow> None
            | Some (Inl x, ng') \<Rightarrow> Some (Inl x, ng')
            | Some (Inr (VNumber lit), ng') \<Rightarrow>
                Some (Inr (VNumber (if u = USub then asc ''-'' @ lit else lit)), ng')
            | Some (Inr v, ng') \<Rightarrow> Some (Inl OtherTypeError, ng')))"
| "eval (BinOp left op right) ng = None"
| "eval (Call func args) ng =
     (case eval func ng of
        None \<Rightarrow> None
      | Some (Inl x, ng') \<Rightarrow> Some (Inl x, ng')
      | Some (Inr f, ng') \<Rightarrow>
          (case eval_args args ng' of
             None \<Rightarrow> None
           | Some (Inl x, ng'') \<Rightarrow> Some (Inl x, ng'')
           | Some (Inr vs, ng'') \<Rightarrow> Some (call_value f vs ng'')))"
| "eval_args [] ng = Some (Inr [], ng)"
| "eval_args (e # es) ng =
     (case eval e ng of
        None \<Rightarrow> None
      | Some (Inl x, ng') \<Rightarrow> Some (Inl x, ng')
      | Some (Inr v, ng') \<Rightarrow>
          (case eval_args es ng' of
             None \<Rightarrow> None
           | Some (Inl x, ng'') \<Rightarrow> Some (Inl x, ng'')
           | Some (Inr vs, ng'') \<Rightarrow> Some (Inr (v # vs), ng'')))"

text \<open>
  \<open>exec(source)\<close>: the text is compiled, a \<open>SyntaxError\<close> being an exception like any
  other, and run. (The text is never blank here: \<open>ast.unparse\<close> wrote it.)
\<close>

definition py_exec :: "ustr \<Rightarrow> node_tree \<Rightarrow> (pyval result) option" where
  "py_exec source ng =
     (if list_all (\<lambda>c. c = 32) source then None
      else (case ast_parse source of
              Unsupported \<Rightarrow> None
            | Syntax_error \<Rightarrow> Some (Inl OtherException, ng)
            | Parsed e \<Rightarrow> eval e ng))"

section \<open>\<open>execute_function_expression\<close>\<close>

text \<open>
  The \<open>except\<close> clauses: a \<open>TypeError\<close> whose text starts with \<open>NodeSetter.\<close> names the
  function; with \<open>() missing\<close> the first character after it is reported as the number
  of operands needed, with \<open>() takes\<close> no number is reported.
\<close>

fun cook_exception :: "pyexc \<Rightarrow> error" where
  "cook_exception (MissingArguments fctname k) =
     NeedsMoreParams fctname (hd (nat_to_digits k))"
| "cook_exception (ExtraArguments fctname) = ExtraParams fctname"
| "cook_exception OtherTypeError = WrongArguments"
| "cook_exception TupleObjectError = TupleSyntax"
| "cook_exception OtherException = ExecutionError"

text \<open>A \<open>dict\<close> in insertion order: item assignment and \<open>{**a, **b}\<close>.\<close>

fun dict_set :: "ustr \<Rightarrow> 'v \<Rightarrow> (ustr \<times> 'v) list \<Rightarrow> (ustr \<times> 'v) list" where
  "dict_set k v [] = [(k, v)]"
| "dict_set k v ((k', v') # m) = (if k' = k then (k, v) # m else (k', v') # dict_set k v m)"

definition dict_merge :: "(ustr \<times> 'v) list \<Rightarrow> (ustr \<times> 'v) list \<Rightarrow> (ustr \<times> 'v) list" where
  "dict_merge a b = foldl (\<lambda>m (k, v). dict_set k v m) a b"

text \<open>
  The \<open>try\<close> block of the final link. The node to link is the active node; when no
  primitive made a node active it is the Group Input node if there is a variable, else
  the first value node if there is a constant. Every exception of the block (a missing
  boundary node, no node to link, no socket at index 0) is reported as the same error.
\<close>

definition last_node :: "mathnode \<Rightarrow> node_tree \<Rightarrow> node option" where
  "last_node customnode ng =
     (case active_node ng of
        Some n \<Rightarrow> Some n
      | None \<Rightarrow>
          if elemVar customnode \<noteq> [] then nodes_get ng (asc ''Group Input'')
          else if elemConst customnode \<noteq> [] then find (\<lambda>n. node_type n = VALUE) (nodes ng)
          else None)"

definition final_link :: "mathnode \<Rightarrow> node_tree \<Rightarrow> error option \<times> node_tree" where
  "final_link customnode ng =
     (case last_node customnode ng of
        None \<Rightarrow> (Some FinalLinkError, ng)
      | Some last_n \<Rightarrow>
          (case nodes_get ng (asc ''Group Output'') of
             None \<Rightarrow> (Some FinalLinkError, ng)
           | Some out_node \<Rightarrow>
               (case (output_socket ng last_n 0, input_socket ng out_node 0) of
                  (Some sock1, Some sock2) \<Rightarrow> (None, link_sockets sock1 sock2 ng)
                | _ \<Rightarrow> (Some FinalLinkError, ng))))"

definition execute_function_expression ::
  "pyenv \<Rightarrow> mathnode \<Rightarrow> ustr \<Rightarrow> node_tree \<Rightarrow> (ustr \<times> socket_api) list \<Rightarrow>
   (ustr \<times> socket_api) list \<Rightarrow> (error option \<times> node_tree) option" where
  "execute_function_expression E customnode expression ng varsapi constapi =
     (let api_expression =
            replace_exact_tokens E expression
              (map (\<lambda>(k, api). (k, api_text api)) (dict_merge varsapi constapi))
      in case py_exec api_expression ng of
           None \<Rightarrow> None
         | Some (Inl e, ng') \<Rightarrow> Some (Some (cook_exception e), ng')
         | Some (Inr v, ng') \<Rightarrow> Some (final_link customnode ng'))"

section \<open>\<open>apply_expression\<close>\<close>

text \<open>
  An exception that \<open>apply_expression\<close> does not catch: the \<open>KeyError\<close> of a missing
  boundary node, the \<open>ValueError\<close> of \<open>float\<close> on a constant with more than one
  point, the failed assertion of \<open>get_socket_python_api\<close>. Blender prints it; the node
  stays as the statements before it left it.
\<close>

datatype uncaught = KeyError | ValueError | AssertionError

text \<open>\<open>Clear node tree\<close>: every node that is not a boundary node is removed.\<close>

definition clear_node_tree :: "node_tree \<Rightarrow> node_tree" where
  "clear_node_tree ng =
     foldl (\<lambda>g n. if node_type n \<noteq> GROUP_INPUT \<and> node_type n \<noteq> GROUP_OUTPUT
                   then nodes_remove (node_id n) g else g)
       ng (nodes ng)"

text \<open>
  \<open>Create new sockets depending on vars\<close>: the names of the current sockets are read
  once, before the loop.
\<close>

definition create_new_sockets :: "pyenv \<Rightarrow> node \<Rightarrow> ustr list \<Rightarrow> node_tree \<Rightarrow> node_tree" where
  "create_new_sockets E in_nod vars ng =
     (if vars \<noteq> []
      then (let current_vars = map sock_name (node_outputs ng in_nod)
            in foldl (\<lambda>g var. if var \<notin> set current_vars then create_socket var g else g)
                 ng (set_iter E vars))
      else ng)"

text \<open>
  \<open>Remove unused vars sockets\<close>: the indices are collected first and removed from the
  highest down.
\<close>

definition remove_unused_sockets :: "node \<Rightarrow> ustr list \<Rightarrow> node_tree \<Rightarrow> node_tree" where
  "remove_unused_sockets in_nod vars ng =
     (let idx_to_del =
            map fst (filter (\<lambda>(idx, socket). sock_type socket \<noteq> CUSTOM
                                            \<and> sock_name socket \<notin> set vars)
                       (enumerate 0 (node_outputs ng in_nod)))
      in foldl (\<lambda>g idx. remove_socket idx g) ng (rev idx_to_del))"

text \<open>\<open>Fill equivalence dict with it's socket eq\<close>.\<close>

fun fill_vareq ::
  "node_tree \<Rightarrow> node \<Rightarrow> ustr list \<Rightarrow> socket list \<Rightarrow> (ustr \<times> socket_api) list \<Rightarrow>
   (ustr \<times> socket_api) list option" where
  "fill_vareq ng in_nod vars [] vareq = Some vareq"
| "fill_vareq ng in_nod vars (s # ss) vareq =
     (if sock_name s \<in> set vars
      then (case get_socket_python_api ng in_nod (sock_identifier s) of
              None \<Rightarrow> None
            | Some api \<Rightarrow> fill_vareq ng in_nod vars ss (dict_set (sock_name s) api vareq))
      else fill_vareq ng in_nod vars ss vareq)"

text \<open>
  \<open>float(const)\<close> on an element of digits and points: at most one point. (A constant
  element has a digit, and the character check has let only ASCII through.)
\<close>

definition float_ok :: "ustr \<Rightarrow> bool" where
  "float_ok const =
     (list_all (\<lambda>c. ascii_digit c \<or> c = 46) const \<and> list_ex ascii_digit const
      \<and> length (filter (\<lambda>c. c = 46) const) \<le> 1)"

text \<open>
  \<open>Add input for constant right below the vars group input\<close>: one value node per
  constant, named after it, and its path in \<open>consteq\<close>.
\<close>

fun add_constants ::
  "ustr list \<Rightarrow> (ustr \<times> socket_api) list \<Rightarrow> node_tree \<Rightarrow>
   uncaught option \<times> (ustr \<times> socket_api) list \<times> node_tree" where
  "add_constants [] consteq ng = (None, consteq, ng)"
| "add_constants (const # rest) consteq ng0 =
     (let (i, ng) = nodes_new VALUE (asc ''Value'') ng0
      in if \<not> float_ok const then (Some ValueError, consteq, ng)
         else (let ng = set_node i (\<lambda>n. n\<lparr>node_setting := const, node_name := const\<rparr>) ng
               in case find (\<lambda>n. node_id n = i) (nodes ng) of
                    None \<Rightarrow> (Some AssertionError, consteq, ng)
                  | Some con_nod \<Rightarrow>
                      (case node_outputs ng con_nod of
                         [] \<Rightarrow> (Some AssertionError, consteq, ng)
                       | out0 # outs \<Rightarrow>
                           (case get_socket_python_api ng con_nod (sock_identifier out0) of
                              None \<Rightarrow> (Some AssertionError, consteq, ng)
                            | Some api \<Rightarrow> add_constants rest (dict_set const api consteq) ng))))"

text \<open>
  The function from \<open>First we make sure the user expression is correct\<close> to its end,
  for the boundary input node found at its start. The result is the exception that
  left the function, if one did, and the node as the function left it; \<open>None\<close> is an
  expression outside the modelled fragment of Python (see \<open>ast_parse\<close>).
\<close>

definition apply_sanatized ::
  "pyenv \<Rightarrow> node \<Rightarrow> mathnode \<Rightarrow> (uncaught option \<times> mathnode) option" where
  "apply_sanatized E in_nod self0 =
     (case sanatize_expression E self0 (user_mathexp self0) of
        (Inl rval, self) \<Rightarrow>
          Some (None, self\<lparr>error_message := message rval, debug_sanatized := asc ''Failed''\<rparr>)
      | (Inr sanatized_expr, self1) \<Rightarrow>
          (let self = self1\<lparr>debug_sanatized := sanatized_expr\<rparr>;
               ng = clear_node_tree (node_tree self);
               ng = create_new_sockets E in_nod (elemVar self) ng;
               ng = remove_unused_sockets in_nod (elemVar self) ng
           in case (if elemVar self \<noteq> []
                    then fill_vareq ng in_nod (elemVar self) (node_outputs ng in_nod) []
                    else Some []) of
                None \<Rightarrow> Some (Some AssertionError, self\<lparr>node_tree := ng\<rparr>)
              | Some vareq \<Rightarrow>
                  (case (if elemConst self \<noteq> []
                         then add_constants (set_iter E (elemConst self)) [] ng
                         else (None, [], ng)) of
                     (Some exc, consteq, ng) \<Rightarrow> Some (Some exc, self\<lparr>node_tree := ng\<rparr>)
                   | (None, consteq, ng) \<Rightarrow>
                       if \<not> (elemVar self \<noteq> [] \<or> elemConst self \<noteq> [])
                       then Some (None, self\<lparr>node_tree := ng\<rparr>)
                       else (case transform_expression E sanatized_expr of
                               None \<Rightarrow> None
                             | Some (Inl fctexp) \<Rightarrow>
                                 Some (None, self\<lparr>node_tree := ng, error_message := message fctexp,
                                                   debug_fctexp := asc ''Failed''\<rparr>)
                             | Some (Inr fctexp) \<Rightarrow>
                                 (case execute_function_expression E
                                         (self\<lparr>node_tree := ng, debug_fctexp := fctexp\<rparr>)
                                         fctexp ng vareq consteq of
                                    None \<Rightarrow> None
                                  | Some (Some rval, ng) \<Rightarrow>
                                      Some (None, self\<lparr>node_tree := ng, debug_fctexp := fctexp,
                                                        error_message := message rval\<rparr>)
                                  | Some (None, ng) \<Rightarrow>
                                      Some (None, self\<lparr>node_tree := ng, debug_fctexp := fctexp\<rparr>))))))"

text \<open>
  With \<open>auto_symbols\<close> set, a macro name in the raw expression is replaced by its glyph and
  the new text is assigned to the property \<open>user_mathexp\<close>. The assignment runs the update
  callback of the property, which calls \<open>apply_expression\<close> again; the outer call then
  returns. (An exception of the inner call is printed by the property system and does
  not reach the outer one.) The repetition ends because every replacement makes the
  text shorter, which the following lemmas establish.
\<close>

lemma find_filter_same:
  "(\<And>x. find Q xs = Some x \<Longrightarrow> P x) \<Longrightarrow> find Q (filter P xs) = find Q xs"
  by (induction xs) auto

lemma find_SomeD: "find P xs = Some x \<Longrightarrow> x \<in> set xs \<and> P x"
  by (induction xs) (auto split: if_splits)

lemma match_here_Some:
  assumes "match_here E toks adv prev s = Some t"
  shows "t \<in> set toks" and "prefix t s" and "adv \<Longrightarrow> t \<noteq> []"
proof -
  from assms have a: "t \<in> set toks"
    and b: "token_matches E t prev s \<and> (if adv then t \<noteq> [] else True)"
    unfolding match_here_def by (auto dest: find_SomeD)
  show "t \<in> set toks" by (rule a)
  from b show "prefix t s" by (simp add: token_matches_def)
  from b show "adv \<Longrightarrow> t \<noteq> []" by simp
qed
lemma scan_Inl_mem: "Inl t \<in> set (scan E toks adv prev s) \<Longrightarrow> t \<in> set toks"
proof (induction E toks adv prev s rule: scan.induct)
  case (1 E toks adv prev s)
  show ?case
  proof (cases "match_here E toks adv prev s")
    case None
    with 1 show ?thesis by (cases s) (auto simp: scan.simps [of E toks adv prev s])
  next
    case (Some tok)
    with 1 match_here_Some(1) [OF Some] show ?thesis
      by (cases "tok = []") (auto simp: scan.simps [of E toks adv prev s])
  qed
qed

lemma scan_filter:
  "(\<And>t. Inl t \<in> set (scan E toks adv prev s) \<Longrightarrow> P t) \<Longrightarrow>
   scan E (filter P toks) adv prev s = scan E toks adv prev s"
proof (induction E toks adv prev s rule: scan.induct)
  case (1 E toks adv prev s)
  have m: "match_here E (filter P toks) adv prev s = match_here E toks adv prev s"
    unfolding match_here_def
  proof (rule find_filter_same)
    fix x
    assume "find (\<lambda>tok. token_matches E tok prev s \<and> (if adv then tok \<noteq> [] else True)) toks = Some x"
    then have "match_here E toks adv prev s = Some x" by (simp add: match_here_def)
    then have "Inl x \<in> set (scan E toks adv prev s)"
      by (simp add: scan.simps [of E toks adv prev s])
    then show "P x" by (rule "1.prems")
  qed
  show ?case
  proof (cases "match_here E toks adv prev s")
    case None
    show ?thesis
    proof (cases s)
      case Nil
      with None m show ?thesis
        by (simp add: scan.simps [of E toks adv prev s] scan.simps [of E "filter P toks" adv prev s])
    next
      case (Cons c cs)
      have "scan E (filter P toks) False (Some c) cs = scan E toks False (Some c) cs"
        using "1.IH"(1) [OF None Cons] "1.prems" None Cons
        by (simp add: scan.simps [of E toks adv prev s])
      with None m Cons show ?thesis
        by (simp add: scan.simps [of E toks adv prev s] scan.simps [of E "filter P toks" adv prev s])
    qed
  next
    case (Some tok)
    show ?thesis
    proof (cases "tok = []")
      case True
      have "scan E (filter P toks) True prev s = scan E toks True prev s"
        using "1.IH"(2) [OF Some True] "1.prems" Some True
        by (simp add: scan.simps [of E toks adv prev s])
      with Some m True show ?thesis
        by (simp add: scan.simps [of E toks adv prev s] scan.simps [of E "filter P toks" adv prev s])
    next
      case False
      have "scan E (filter P toks) False (Some (last tok)) (drop (length tok) s)
          = scan E toks False (Some (last tok)) (drop (length tok) s)"
        using "1.IH"(3) [OF Some False] "1.prems" Some False
        by (simp add: scan.simps [of E toks adv prev s])
      with Some m False show ?thesis
        by (simp add: scan.simps [of E toks adv prev s] scan.simps [of E "filter P toks" adv prev s])
    qed
  qed
qed

lemma scan_length:
  "sum_list (map (\<lambda>x. case x of Inl t \<Rightarrow> length t | Inr c \<Rightarrow> 1) (scan E toks adv prev s))
     = length s"
proof (induction E toks adv prev s rule: scan.induct)
  case (1 E toks adv prev s)
  show ?case
  proof (cases "match_here E toks adv prev s")
    case None
    with 1 show ?thesis by (cases s) (auto simp: scan.simps [of E toks adv prev s])
  next
    case (Some tok)
    have p: "length tok \<le> length s" using match_here_Some(2) [OF Some] by (rule prefix_length_le)
    show ?thesis
    proof (cases "tok = []")
      case True
      with Some 1 show ?thesis by (simp add: scan.simps [of E toks adv prev s])
    next
      case False
      with Some "1.IH"(3) [OF Some False] p show ?thesis
        by (simp add: scan.simps [of E toks adv prev s])
    qed
  qed
qed

lemma sum_list_less:
  fixes f g :: "'a \<Rightarrow> nat"
  assumes "\<forall>x\<in>set xs. f x \<le> g x" and "\<exists>x\<in>set xs. f x < g x"
  shows "sum_list (map f xs) < sum_list (map g xs)"
  using assms
proof (induction xs)
  case Nil
  then show ?case by simp
next
  case (Cons a xs)
  have le: "sum_list (map f xs) \<le> sum_list (map g xs)"
    using Cons.prems(1) by (intro sum_list_mono) simp
  show ?case
  proof (cases "f a < g a")
    case True
    with le show ?thesis by simp
  next
    case False
    with Cons.prems have "\<exists>x\<in>set xs. f x < g x" by auto
    with Cons.IH Cons.prems(1) have "sum_list (map f xs) < sum_list (map g xs)" by simp
    moreover have "f a \<le> g a" using Cons.prems(1) by simp
    ultimately show ?thesis by simp
  qed
qed

lemma keys_of_filtered:
  "map fst (map (\<lambda>(k, u, v). (k, u)) (filter (\<lambda>(k, u, v). P k) xs)) = filter P (map fst xs)"
  by (induction xs) auto

lemma replace_macros_shorter:
  assumes any: "any_str (match_exact_tokens E s (map fst IRRATIONALS))"
  shows "length (replace_exact_tokens E s
            (map (\<lambda>(k, u, v). (k, u))
               (filter (\<lambda>(k, u, v). k \<in> set (match_exact_tokens E s (map fst IRRATIONALS)))
                  IRRATIONALS)))
         < length s"
proof -
  define toks where "toks = map fst IRRATIONALS"
  define mached where "mached = match_exact_tokens E s toks"
  define M where "M = map (\<lambda>(k, u, v). (k, u)) (filter (\<lambda>(k, u, v). k \<in> set mached) IRRATIONALS)"
  define segs where "segs = scan E toks False None s"
  have toks_ne: "toks \<noteq> []" by (simp add: toks_def IRRATIONALS_def)
  have mached_eq: "set mached = {t. Inl t \<in> set segs}"
    unfolding mached_def match_exact_tokens_def tokens_scan_def segs_def using toks_ne
    by (auto split: sum.splits)
  have keys: "map fst M = filter (\<lambda>k. k \<in> set mached) toks"
    unfolding M_def toks_def by (rule keys_of_filtered)
  from any obtain t0 where t0: "t0 \<in> set mached" "t0 \<noteq> []"
    by (auto simp: any_str_def list_ex_iff mached_def toks_def)
  then have in0: "Inl t0 \<in> set segs" using mached_eq by simp
  then have "t0 \<in> set toks" unfolding segs_def by (rule scan_Inl_mem)
  with t0 have keys_ne: "map fst M \<noteq> []" unfolding keys by (auto simp: filter_empty_conv)
  have same: "scan E (map fst M) False None s = segs"
    unfolding keys segs_def by (rule scan_filter) (simp add: mached_eq segs_def)
  have shape: "\<forall>(k, u) \<in> set M. length u = 1 \<and> 2 \<le> length k"
    unfolding M_def by (auto simp: IRRATIONALS_def asc_def)
  have repl: "length (dict_get M t) = 1 \<and> 2 \<le> length t" if "Inl t \<in> set segs" for t
  proof -
    from that have "t \<in> set mached" using mached_eq by simp
    moreover from that have "t \<in> set toks" unfolding segs_def by (rule scan_Inl_mem)
    ultimately have "t \<in> set (map fst M)" unfolding keys by simp
    then have "map_of M t \<noteq> None" by (simp add: map_of_eq_None_iff)
    then obtain u where u: "map_of M t = Some u" by auto
    then have "(t, u) \<in> set M" by (rule map_of_SomeD)
    with shape u show ?thesis by (auto simp: dict_get_def)
  qed
  have "length (replace_exact_tokens E s M)
      = sum_list (map (\<lambda>x. length (case x of Inl tok \<Rightarrow> dict_get M tok | Inr c \<Rightarrow> [c])) segs)"
    unfolding replace_exact_tokens_def tokens_scan_def using keys_ne same
    by (simp add: length_concat comp_def)
  also have "\<dots> < sum_list (map (\<lambda>x. case x of Inl t \<Rightarrow> length t | Inr c \<Rightarrow> 1) segs)"
  proof (rule sum_list_less)
    show "\<forall>x\<in>set segs. length (case x of Inl tok \<Rightarrow> dict_get M tok | Inr c \<Rightarrow> [c])
        \<le> (case x of Inl t \<Rightarrow> length t | Inr c \<Rightarrow> 1)"
    proof
      fix x assume x: "x \<in> set segs"
      show "length (case x of Inl tok \<Rightarrow> dict_get M tok | Inr c \<Rightarrow> [c])
        \<le> (case x of Inl t \<Rightarrow> length t | Inr c \<Rightarrow> 1)"
      proof (cases x)
        case (Inl t)
        with x repl [of t] show ?thesis by simp
      next
        case (Inr c)
        then show ?thesis by simp
      qed
    qed
    show "\<exists>x\<in>set segs. length (case x of Inl tok \<Rightarrow> dict_get M tok | Inr c \<Rightarrow> [c])
        < (case x of Inl t \<Rightarrow> length t | Inr c \<Rightarrow> 1)"
      using repl [OF in0] in0 by (intro bexI [of _ "Inl t0"]) auto
  qed
  also have "\<dots> = length s" unfolding segs_def by (rule scan_length)
  finally show ?thesis unfolding M_def mached_def toks_def .
qed



function apply_expression ::
  "pyenv \<Rightarrow> mathnode \<Rightarrow> (uncaught option \<times> mathnode) option" where
  "apply_expression E self0 =
     (case (nodes_get (node_tree self0) (asc ''Group Input''),
            nodes_get (node_tree self0) (asc ''Group Output'')) of
        (Some in_nod, Some out_nod) \<Rightarrow>
          (let self = self0\<lparr>error_message := [], debug_sanatized := [], debug_fctexp := []\<rparr>;
               mached = match_exact_tokens E (user_mathexp self) (map fst IRRATIONALS)
           in if auto_symbols self \<and> any_str mached
              then (case apply_expression E
                     (self\<lparr>user_mathexp :=
                        replace_exact_tokens E (user_mathexp self)
                          (map (\<lambda>(k, u, v). (k, u))
                             (filter (\<lambda>(k, u, v). k \<in> set mached) IRRATIONALS))\<rparr>) of
                      None \<Rightarrow> None
                    | Some (raised, after) \<Rightarrow> Some (None, after))
              else apply_sanatized E in_nod self)
      | _ \<Rightarrow> Some (Some KeyError, self0))"
  by pat_completeness auto
termination
proof (relation "measure (\<lambda>(E, self). length (user_mathexp self))")
  show "wf (measure (\<lambda>(E, self). length (user_mathexp self)))" by simp
next
  fix E :: pyenv and self0 self :: mathnode and mached :: "ustr list"
  assume s: "self = self0\<lparr>error_message := [], debug_sanatized := [], debug_fctexp := []\<rparr>"
    and m: "mached = match_exact_tokens E (user_mathexp self) (map fst IRRATIONALS)"
    and c: "auto_symbols self \<and> any_str mached"
  from c m have "any_str (match_exact_tokens E (user_mathexp self) (map fst IRRATIONALS))"
    by simp
  from replace_macros_shorter [OF this] m s
  show "((E, self\<lparr>user_mathexp :=
              replace_exact_tokens E (user_mathexp self)
                (map (\<lambda>(k, u, v). (k, u))
                   (filter (\<lambda>(k, u, v). k \<in> set mached) IRRATIONALS))\<rparr>),
         (E, self0))
        \<in> measure (\<lambda>(E, self). length (user_mathexp self))"
    by simp
qed

declare apply_expression.simps [simp del]

section \<open>Reference environment and predicates of the statements\<close>

text \<open>
  \<open>repr(float(lit))\<close> for a literal of digits around one point: the shortest text
  that reads back as the same number. It is the literal without the zeros in front of
  the integer part and behind the fraction, a part left empty being \<open>0\<close>; so \<open>.5\<close>
  prints as \<open>0.5\<close>, \<open>1.\<close> as \<open>1.0\<close> and \<open>1.50\<close> as \<open>1.5\<close>. (This is what \<open>repr\<close> prints for
  a literal of at most 15 significant digits whose value is zero or at least \<open>0.0001\<close>
  and below \<open>1e16\<close>; outside that range \<open>repr\<close> rounds or prints an exponent.)
\<close>

definition decimal_repr :: "ustr \<Rightarrow> ustr" where
  "decimal_repr lit =
     (let whole = dropWhile (\<lambda>c. c = 48) (takeWhile (\<lambda>c. c \<noteq> 46) lit);
          fraction = rev (dropWhile (\<lambda>c. c = 48) (rev (drop 1 (dropWhile (\<lambda>c. c \<noteq> 46) lit))))
      in (if whole = [] then asc ''0'' else whole) @ asc ''.'' @
         (if fraction = [] then asc ''0'' else fraction))"

text \<open>
  Two reference environments for evaluating concrete inputs. The Unicode tables list
  the code points that the source itself names (the superscript digits are digits but
  not decimals, the three glyphs are letters and word characters); the inputs evaluated
  below contain no other code point beyond ASCII. A float literal prints by
  \<open>decimal_repr\<close>. The order in which CPython iterates a set of strings depends on the
  hash seed of the process: \<open>env0\<close> iterates in the order of insertion, \<open>env1\<close> in the
  reverse order, which for a set of two elements are all the orders there are. What is
  stated for every run of the program is stated for every environment, or for both.
\<close>

definition env0 :: pyenv where
  "env0 = \<lparr>uc_isalpha = (\<lambda>c. c \<in> {0x3C0, 0x1D452, 0x3C6}),
           uc_isdigit = is_superscript,
           uc_isdecimal = (\<lambda>c. False),
           uc_isword = (\<lambda>c. c \<in> {0x3C0, 0x1D452, 0x3C6} \<or> is_superscript c),
           set_iter = (\<lambda>xs. xs),
           float_repr = decimal_repr\<rparr>"

definition env1 :: pyenv where
  "env1 = env0\<lparr>set_iter := rev\<rparr>"

text \<open>
  An iteration order of a set: every element once. (The sets of the program are kept
  as lists without repetition, see \<open>set_add\<close>.)
\<close>

definition iterates :: "pyenv \<Rightarrow> ustr list \<Rightarrow> bool" where
  "iterates E xs = (set (set_iter E xs) = set xs \<and> distinct (set_iter E xs))"

text \<open>A tree without a binary operator node, and a tree of calls, names and constants only.\<close>

fun no_binop :: "expr \<Rightarrow> bool" where
  "no_binop (BinOp left op right) = False"
| "no_binop (UnaryOp u e) = no_binop e"
| "no_binop (Call func args) = (no_binop func \<and> list_all no_binop args)"
| "no_binop (Name n) = True"
| "no_binop (Constant c) = True"
| "no_binop (Path p) = True"

fun calls_names_constants :: "expr \<Rightarrow> bool" where
  "calls_names_constants (BinOp left op right) = False"
| "calls_names_constants (UnaryOp u e) = False"
| "calls_names_constants (Call func args) =
     (calls_names_constants func \<and> list_all calls_names_constants args)"
| "calls_names_constants (Name n) = True"
| "calls_names_constants (Constant c) = True"
| "calls_names_constants (Path p) = True"

text \<open>
  A custom node as \<open>init\<close> finds it: the properties at their defaults and, for the node
  tree, the boundary nodes only.

  Modelled from the spec: \<open>create_new_nodegroup\<close> (module \<open>boiler\<close>, not in the sources)
  returns the group with its fixed input and output nodes and no boundary input socket.
\<close>

definition new_nodegroup :: node_tree where
  "new_nodegroup =
     \<lparr>nodes = [\<lparr>node_id = 0, node_name = asc ''Group Input'', node_type = GROUP_INPUT,
                 node_setting = []\<rparr>,
               \<lparr>node_id = 1, node_name = asc ''Group Output'', node_type = GROUP_OUTPUT,
                 node_setting = []\<rparr>],
      active = None, inputs = [], links = [], fresh = 2\<rparr>"

definition node0 :: mathnode where
  "node0 =
     \<lparr>node_tree = new_nodegroup, error_message = [], debug_sanatized = [], debug_fctexp = [],
      user_mathexp = asc ''a + b + c'', implicit_mult = False, auto_symbols = False,
      elemTotal = [], elemFct = [], elemConst = [], elemVar = [], elemCmplx = []\<rparr>"

text \<open>
  The user types an expression: the property \<open>user_mathexp\<close> is assigned and its update
  callback \<open>update_user_mathexp\<close> calls \<open>apply_expression\<close>.
\<close>

definition update_user_mathexp :: "pyenv \<Rightarrow> ustr \<Rightarrow> mathnode \<Rightarrow> (uncaught option \<times> mathnode) option" where
  "update_user_mathexp E text self = apply_expression E (self\<lparr>user_mathexp := text\<rparr>)"

text \<open>
  The custom node after the expression \<open>a+b\<close> was compiled on a fresh node, the socket
  \<open>a\<close> having been created first (lemma \<open>compiled_a_plus_b_run\<close>).
\<close>

definition compiled_a_plus_b :: mathnode where
  "compiled_a_plus_b =
     \<lparr>node_tree =
        \<lparr>nodes = [\<lparr>node_id = 0, node_name = asc ''Group Input'', node_type = GROUP_INPUT,
                    node_setting = []\<rparr>,
                  \<lparr>node_id = 1, node_name = asc ''Group Output'', node_type = GROUP_OUTPUT,
                    node_setting = []\<rparr>,
                  \<lparr>node_id = 4, node_name = asc ''Math'', node_type = MATH,
                    node_setting = asc ''ADD''\<rparr>],
         active = Some 4,
         inputs = [\<lparr>sock_identifier = 2, sock_name = asc ''a'', sock_type = FLOAT_SOCKET\<rparr>,
                   \<lparr>sock_identifier = 3, sock_name = asc ''b'', sock_type = FLOAT_SOCKET\<rparr>],
         links = [(GroupIn 2, NodeIn 4 0), (GroupIn 3, NodeIn 4 1), (NodeOut 4 0, NodeIn 1 0)],
         fresh = 5\<rparr>,
      error_message = [], debug_sanatized = asc ''a+b'', debug_fctexp = asc ''add(a, b)'',
      user_mathexp = asc ''a+b'', implicit_mult = False, auto_symbols = False,
      elemTotal = [asc ''a'', asc ''b''], elemFct = [], elemConst = [],
      elemVar = [asc ''a'', asc ''b''], elemCmplx = []\<rparr>"

text \<open>The errors of the sanitizing stage.\<close>

fun sanitize_error :: "error \<Rightarrow> bool" where
  "sanitize_error (UnrecognizedVariable e) = True"
| "sanitize_error (VariableTaken e) = True"
| "sanitize_error (UnrecognizedSymbol c) = True"
| "sanitize_error _ = False"

text \<open>
  The boundary nodes are in place: the node named \<open>Group Input\<close> is the group input
  node, and there is a node named \<open>Group Output\<close>.
\<close>

definition has_boundary :: "node_tree \<Rightarrow> bool" where
  "has_boundary ng =
     ((case nodes_get ng (asc ''Group Input'') of
         Some n \<Rightarrow> node_type n = GROUP_INPUT | None \<Rightarrow> False)
      \<and> nodes_get ng (asc ''Group Output'') \<noteq> None)"


text \<open>Two states of the node that differ at most in the element sets.\<close>

definition untouched :: "mathnode \<Rightarrow> mathnode \<Rightarrow> bool" where
  "untouched s a =
     (node_tree a = node_tree s \<and> error_message a = error_message s
      \<and> debug_sanatized a = debug_sanatized s \<and> debug_fctexp a = debug_fctexp s
      \<and> user_mathexp a = user_mathexp s \<and> implicit_mult a = implicit_mult s
      \<and> auto_symbols a = auto_symbols s)"

text \<open>
  The first statements of \<open>apply_expression\<close>, named for the statements below: the reset
  of the three messages, whether a macro name of \<open>IRRATIONALS\<close> occurs in a text as an
  exact token, and the text with the macro names replaced by their glyphs.
\<close>

definition reset_messages :: "mathnode \<Rightarrow> mathnode" where
  "reset_messages self = self\<lparr>error_message := [], debug_sanatized := [], debug_fctexp := []\<rparr>"

definition macros_matched :: "pyenv \<Rightarrow> ustr \<Rightarrow> bool" where
  "macros_matched E text = any_str (match_exact_tokens E text (map fst IRRATIONALS))"

definition with_glyphs :: "pyenv \<Rightarrow> ustr \<Rightarrow> ustr" where
  "with_glyphs E text =
     replace_exact_tokens E text
       (map (\<lambda>(k, u, v). (k, u))
          (filter (\<lambda>(k, u, v). k \<in> set (match_exact_tokens E text (map fst IRRATIONALS)))
             IRRATIONALS))"

text \<open>
  Helpers of the statements: a list without the item at an index (what \<open>remove_socket\<close>
  does to the boundary inputs), the boundary input of a name, the interior nodes.
\<close>

definition remove_at :: "nat \<Rightarrow> 'a list \<Rightarrow> 'a list" where
  "remove_at idx xs = (if idx < length xs then take idx xs @ drop (Suc idx) xs else xs)"

definition socket_named :: "ustr \<Rightarrow> mathnode \<Rightarrow> socket option" where
  "socket_named name self = find (\<lambda>s. sock_name s = name) (inputs (node_tree self))"


section \<open>Properties\<close>

lemma asc_simps: "asc [] = []" "asc (c # cs) = of_char c # asc cs"
  by (simp_all add: asc_def)

lemma set_iter_env0: "set_iter env0 xs = xs"
  by (simp add: env0_def)

subsection \<open>Lowering\<close>

lemma visit_no_binop:
  "(\<forall>e' used'. visit e used = Some (e', used') \<longrightarrow> no_binop e')"
  "(\<forall>es' used'. visit_list es used = Some (es', used') \<longrightarrow> list_all no_binop es')"
proof (induction e used and es used rule: visit_visit_list.induct)
  case (1 left op right used)
  then show ?case by (auto split: option.splits)
next
  case (2 func args used)
  then show ?case by (auto simp: Let_def split: option.splits)
next
  case (3 u opd used)
  then show ?case by (auto split: option.splits)
next
  case (8 e es used)
  then show ?case by (auto split: option.splits)
qed simp_all

lemma parse_example:
  "ast_parse (asc ''x*2 + (3-4/5)/3 + (x+y)**2'') =
     Parsed (BinOp
            (BinOp (BinOp (Name (asc ''x'')) Mult (Constant (asc ''2''))) Add
               (BinOp (BinOp (Constant (asc ''3'')) Sub
                         (BinOp (Constant (asc ''4'')) Div (Constant (asc ''5''))))
                  Div (Constant (asc ''3''))))
            Add
            (BinOp (BinOp (Name (asc ''x'')) Add (Name (asc ''y''))) Pow (Constant (asc ''2''))))"
  by code_simp

text \<open>
  C2, as amended. The text \<open>x*2 + (3-4/5)/3 + (x+y)**2\<close> parses to the expected tree,
  the transformer lowers that tree to
  \<open>add(add(mult(x,2),div(subtract(3,div(4,5)),3)),exp(add(x,y),2))\<close> with the operands
  of every operator in their order, recording the functions used, and
  \<open>transform_expression\<close> returns the text of that call form. For every tree, whatever
  the transformer returns has no binary operator node left. (Unary operator nodes have
  no visitor and stay in the output; see the counterexample.)
\<close>

theorem C2_lowering:
  "visit (BinOp
            (BinOp (BinOp (Name (asc ''x'')) Mult (Constant (asc ''2''))) Add
               (BinOp (BinOp (Constant (asc ''3'')) Sub
                         (BinOp (Constant (asc ''4'')) Div (Constant (asc ''5''))))
                  Div (Constant (asc ''3''))))
            Add
            (BinOp (BinOp (Name (asc ''x'')) Add (Name (asc ''y''))) Pow (Constant (asc ''2''))))
         []
   = Some (Call (Name (asc ''add''))
             [Call (Name (asc ''add''))
                [Call (Name (asc ''mult'')) [Name (asc ''x''), Constant (asc ''2'')],
                 Call (Name (asc ''div''))
                   [Call (Name (asc ''subtract''))
                      [Constant (asc ''3''),
                       Call (Name (asc ''div'')) [Constant (asc ''4''), Constant (asc ''5'')]],
                    Constant (asc ''3'')]],
              Call (Name (asc ''exp''))
                [Call (Name (asc ''add'')) [Name (asc ''x''), Name (asc ''y'')],
                 Constant (asc ''2'')]],
           map asc [''mult'', ''div'', ''subtract'', ''add'', ''exp''])
   \<and> transform_expression env0 (asc ''x*2 + (3-4/5)/3 + (x+y)**2'')
       = Some (Inr (asc ''add(add(mult(x, 2), div(subtract(3, div(4, 5)), 3)), exp(add(x, y), 2))''))
   \<and> (\<forall>e used e' used'. visit e used = Some (e', used') \<longrightarrow> no_binop e')"
proof (intro conjI)
  show "\<forall>e used e' used'. visit e used = Some (e', used') \<longrightarrow> no_binop e'"
    using visit_no_binop(1) by blast
qed code_simp+

theorem C2_lowering_witness:
  "visit (BinOp (Name (asc ''a'')) Mult (UnaryOp USub (Name (asc ''b'')))) []
     = Some (Call (Name (asc ''mult'')) [Name (asc ''a''), UnaryOp USub (Name (asc ''b''))],
             [asc ''mult''])
   \<and> no_binop (Call (Name (asc ''mult'')) [Name (asc ''a''), UnaryOp USub (Name (asc ''b''))])"
proof -
  have v: "visit (BinOp (Name (asc ''a'')) Mult (UnaryOp USub (Name (asc ''b'')))) []
     = Some (Call (Name (asc ''mult'')) [Name (asc ''a''), UnaryOp USub (Name (asc ''b''))],
             [asc ''mult''])"
    by code_simp
  from C2_lowering v show ?thesis by blast
qed

text \<open>
  C2 as stated fails for a unary operator: \<open>-x\<close> parses to a \<open>UnaryOp\<close> node, the
  transformer returns it unchanged, and the function expression is the text \<open>-x\<close>.
\<close>

theorem C2_counterexample:
  "ast_parse (asc ''-x'') = Parsed (UnaryOp USub (Name (asc ''x'')))
   \<and> visit (UnaryOp USub (Name (asc ''x''))) [] = Some (UnaryOp USub (Name (asc ''x'')), [])
   \<and> \<not> calls_names_constants (UnaryOp USub (Name (asc ''x'')))
   \<and> transform_expression env0 (asc ''-x'') = Some (Inr (asc ''-x''))"
  by (intro conjI; code_simp)


subsection \<open>Concrete passes\<close>

lemma compiled_a_plus_b_run:
  "update_user_mathexp env0 (asc ''a+b'') node0 = Some (None, compiled_a_plus_b)"
  by code_simp

text \<open>
  C3. The base group of \<open>replace_superscript_exponents\<close> takes the whole run of letters
  and digits in front of the superscripts: for \<open>2a\<^sup>2b\<close> (the superscript two is the code
  point B2) the base is \<open>2a\<close> and the result is \<open>(2a**2)b\<close>, where the docstring of the
  function promises \<open>2(a**2)b\<close>. Sanitizing then fails on the element \<open>2a\<close> without
  implicit multiplication; with it, \<open>2a\<close> is filed as a composite, the text stays
  \<open>(2a**2)b\<close>, and that text does not parse. In neither mode does the input yield the
  constant 2 and the variables a and b.
\<close>

theorem C3_superscript_base:
  "replace_superscript_exponents (asc ''2a'' @ [0xB2] @ asc ''b'') = asc ''(2a**2)b''
   \<and> fst (sanatize_expression env0 node0 (asc ''2a'' @ [0xB2] @ asc ''b''))
       = Inl (UnrecognizedVariable (asc ''2a''))
   \<and> fst (sanatize_expression env0 (node0\<lparr>implicit_mult := True\<rparr>)
            (asc ''2a'' @ [0xB2] @ asc ''b''))
       = Inr (asc ''(2a**2)b'')
   \<and> elemCmplx (snd (sanatize_expression env0 (node0\<lparr>implicit_mult := True\<rparr>)
            (asc ''2a'' @ [0xB2] @ asc ''b''))) = [asc ''2a'']
   \<and> elemConst (snd (sanatize_expression env0 (node0\<lparr>implicit_mult := True\<rparr>)
            (asc ''2a'' @ [0xB2] @ asc ''b''))) = [asc ''2'']
   \<and> elemVar (snd (sanatize_expression env0 (node0\<lparr>implicit_mult := True\<rparr>)
            (asc ''2a'' @ [0xB2] @ asc ''b''))) = [asc ''b'']
   \<and> transform_expression env0 (asc ''(2a**2)b'') = Some (Inl ExpressionNotRecognized)"
  by (intro conjI; code_simp)
subsection \<open>Reconciling the boundary inputs\<close>

lemma create_loop:
  "inputs (foldl (\<lambda>g var. if var \<notin> C then create_socket var g else g) ng xs)
     = inputs ng @ map (\<lambda>(i, v). \<lparr>sock_identifier = i, sock_name = v, sock_type = FLOAT_SOCKET\<rparr>)
                     (enumerate (fresh ng) (filter (\<lambda>v. v \<notin> C) xs))
   \<and> fresh (foldl (\<lambda>g var. if var \<notin> C then create_socket var g else g) ng xs)
     = fresh ng + length (filter (\<lambda>v. v \<notin> C) xs)
   \<and> nodes (foldl (\<lambda>g var. if var \<notin> C then create_socket var g else g) ng xs) = nodes ng
   \<and> links (foldl (\<lambda>g var. if var \<notin> C then create_socket var g else g) ng xs) = links ng
   \<and> active (foldl (\<lambda>g var. if var \<notin> C then create_socket var g else g) ng xs) = active ng"
proof (induction xs arbitrary: ng)
  case Nil
  show ?case by simp
next
  case (Cons x xs)
  show ?case
  proof (cases "x \<in> C")
    case True
    then show ?thesis using Cons [of ng] by simp
  next
    case False
    then show ?thesis using Cons [of "create_socket x ng"] by (simp add: create_socket_def)
  qed
qed

lemma remove_loop_inputs:
  "inputs (foldl (\<lambda>g idx. remove_socket idx g) ng idxs)
     = foldl (\<lambda>xs idx. remove_at idx xs) (inputs ng) idxs
   \<and> nodes (foldl (\<lambda>g idx. remove_socket idx g) ng idxs) = nodes ng
   \<and> fresh (foldl (\<lambda>g idx. remove_socket idx g) ng idxs) = fresh ng
   \<and> active (foldl (\<lambda>g idx. remove_socket idx g) ng idxs) = active ng
   \<and> set (links (foldl (\<lambda>g idx. remove_socket idx g) ng idxs)) \<subseteq> set (links ng)"
proof (induction idxs arbitrary: ng)
  case Nil
  show ?case by simp
next
  case (Cons i idxs)
  have "set (links (remove_socket i ng)) \<subseteq> set (links ng)"
    by (auto simp: remove_socket_def)
  then show ?case using Cons [of "remove_socket i ng"]
    by (auto simp: remove_socket_def remove_at_def)
qed

lemma remove_from_the_top:
  "foldl (\<lambda>l i. remove_at i l) (xs @ ys)
     (rev (map fst (filter (\<lambda>(i, s). \<not> keep s) (enumerate 0 xs))))
   = filter keep xs @ ys"
proof (induction xs arbitrary: ys rule: rev_induct)
  case Nil
  show ?case by simp
next
  case (snoc x xs)
  show ?case
  proof (cases "keep x")
    case True
    then show ?thesis using snoc [of "x # ys"] by (simp add: enumerate_append_eq)
  next
    case False
    have "remove_at (length xs) (xs @ x # ys) = xs @ ys" by (simp add: remove_at_def)
    then show ?thesis using False snoc [of ys] by (simp add: enumerate_append_eq)
  qed
qed

lemma remove_unused_sockets_inputs:
  assumes "node_type in_nod = GROUP_INPUT"
  shows "inputs (remove_unused_sockets in_nod vars ng)
           = filter (\<lambda>s. sock_type s = CUSTOM \<or> sock_name s \<in> set vars) (inputs ng)"
proof -
  have e: "filter (\<lambda>(idx, socket). sock_type socket \<noteq> CUSTOM \<and> sock_name socket \<notin> set vars)
             (enumerate 0 (node_outputs ng in_nod))
           = filter (\<lambda>(i, s). \<not> (sock_type s = CUSTOM \<or> sock_name s \<in> set vars))
               (enumerate 0 (inputs ng))"
    using assms by (simp add: node_outputs_def enumerate_append_eq virtual_socket_def)
  show ?thesis
    unfolding remove_unused_sockets_def Let_def e
    using remove_from_the_top [of "inputs ng" "[]" "\<lambda>s. sock_type s = CUSTOM \<or> sock_name s \<in> set vars"]
    by (simp add: remove_loop_inputs)
qed

lemma remove_unused_sockets_frame:
  "nodes (remove_unused_sockets in_nod vars ng) = nodes ng
   \<and> fresh (remove_unused_sockets in_nod vars ng) = fresh ng
   \<and> active (remove_unused_sockets in_nod vars ng) = active ng
   \<and> set (links (remove_unused_sockets in_nod vars ng)) \<subseteq> set (links ng)"
  unfolding remove_unused_sockets_def Let_def using remove_loop_inputs by blast

lemma create_new_sockets_inputs:
  assumes "node_type in_nod = GROUP_INPUT"
  shows "inputs (create_new_sockets E in_nod vars ng)
           = inputs ng @ map (\<lambda>(i, v). \<lparr>sock_identifier = i, sock_name = v, sock_type = FLOAT_SOCKET\<rparr>)
               (enumerate (fresh ng)
                  (filter (\<lambda>v. v \<notin> set (map sock_name (inputs ng)) \<and> v \<noteq> [])
                     (if vars = [] then [] else set_iter E vars)))"
proof -
  have c: "set (map sock_name (node_outputs ng in_nod)) = insert [] (set (map sock_name (inputs ng)))"
    using assms by (simp add: node_outputs_def virtual_socket_def)
  have f: "filter (\<lambda>v. v \<notin> insert [] (set (map sock_name (inputs ng)))) xs
           = filter (\<lambda>v. v \<notin> set (map sock_name (inputs ng)) \<and> v \<noteq> []) xs" for xs
    by (rule filter_cong) auto
  show ?thesis
  proof (cases "vars = []")
    case True
    then show ?thesis by (simp add: create_new_sockets_def)
  next
    case False
    have "inputs (create_new_sockets E in_nod vars ng)
          = inputs (foldl (\<lambda>g var. if var \<notin> insert [] (set (map sock_name (inputs ng)))
                                    then create_socket var g else g) ng (set_iter E vars))"
      using False unfolding create_new_sockets_def Let_def c by simp
    also have "\<dots> = inputs ng @ map (\<lambda>(i, v). \<lparr>sock_identifier = i, sock_name = v, sock_type = FLOAT_SOCKET\<rparr>)
                     (enumerate (fresh ng)
                        (filter (\<lambda>v. v \<notin> insert [] (set (map sock_name (inputs ng)))) (set_iter E vars)))"
      using create_loop [of "insert [] (set (map sock_name (inputs ng)))" ng "set_iter E vars"]
      by blast
    finally show ?thesis using False unfolding f by simp
  qed
qed

lemma create_new_sockets_frame:
  "nodes (create_new_sockets E in_nod vars ng) = nodes ng
   \<and> links (create_new_sockets E in_nod vars ng) = links ng
   \<and> active (create_new_sockets E in_nod vars ng) = active ng"
  unfolding create_new_sockets_def Let_def using create_loop by simp

lemma created_names:
  "map sock_name (map (\<lambda>(i, v). \<lparr>sock_identifier = i, sock_name = v, sock_type = FLOAT_SOCKET\<rparr>)
                    (enumerate n ys)) = ys"
  by (induction ys arbitrary: n) simp_all

text \<open>
  C6. The boundary inputs are reconciled against the variables by \<open>create_new_sockets\<close>
  followed by \<open>remove_unused_sockets\<close>. For every node tree, every set of variables and
  every order in which the set is iterated, the inputs afterwards are: the sockets of
  before that are custom or carry the name of a variable, each the socket it was
  (identity, name and type) and in the order of before, followed by one new socket for
  each variable that named no socket, with identities that did not exist. So a socket
  whose name is still a variable is reused, every other regular socket is removed
  however many there are, and a socket is created only for a variable without one.
  Two whole passes show it by identity for both iteration orders of a set of two: after
  \<open>a+b\<close> and then \<open>a+c\<close> on a fresh node, the socket \<open>a\<close> is the socket it was after the
  first pass, \<open>b\<close> and its identity are gone, and \<open>c\<close> has an identity that no socket
  of the first pass had.
\<close>

theorem C6_boundary_reconciliation:
  "(\<forall>E in_nod vars ng.
      node_type in_nod = GROUP_INPUT \<and> iterates E vars \<longrightarrow>
      inputs (remove_unused_sockets in_nod vars (create_new_sockets E in_nod vars ng))
        = filter (\<lambda>s. sock_type s = CUSTOM \<or> sock_name s \<in> set vars) (inputs ng)
          @ map (\<lambda>(i, v). \<lparr>sock_identifier = i, sock_name = v, sock_type = FLOAT_SOCKET\<rparr>)
              (enumerate (fresh ng)
                 (filter (\<lambda>v. v \<notin> set (map sock_name (inputs ng)) \<and> v \<noteq> [])
                    (set_iter E vars))))
   \<and> list_all
       (\<lambda>E. case update_user_mathexp E (asc ''a+b'') node0 of
               Some (None, first) \<Rightarrow>
                 (case update_user_mathexp E (asc ''a+c'') first of
                    Some (None, second) \<Rightarrow>
                      error_message first = [] \<and> error_message second = []
                      \<and> length (inputs (node_tree first)) = 2
                      \<and> length (inputs (node_tree second)) = 2
                      \<and> socket_named (asc ''a'') first \<noteq> None
                      \<and> socket_named (asc ''a'') second = socket_named (asc ''a'') first
                      \<and> socket_named (asc ''b'') first \<noteq> None
                      \<and> socket_named (asc ''b'') second = None
                      \<and> map_option sock_identifier (socket_named (asc ''b'') first)
                          \<notin> set (map (\<lambda>s. Some (sock_identifier s)) (inputs (node_tree second)))
                      \<and> socket_named (asc ''c'') first = None
                      \<and> socket_named (asc ''c'') second \<noteq> None
                      \<and> map_option sock_identifier (socket_named (asc ''c'') second)
                          \<notin> set (map (\<lambda>s. Some (sock_identifier s)) (inputs (node_tree first)))
                  | _ \<Rightarrow> False)
             | _ \<Rightarrow> False)
       [env0, env1]"
proof (intro conjI allI impI)
  fix E :: pyenv and in_nod :: node and vars :: "ustr list" and ng :: node_tree
  assume h: "node_type in_nod = GROUP_INPUT \<and> iterates E vars"
  then have t: "node_type in_nod = GROUP_INPUT" and s: "set (set_iter E vars) = set vars"
    by (simp_all add: iterates_def)
  let ?new = "map (\<lambda>(i, v). \<lparr>sock_identifier = i, sock_name = v, sock_type = FLOAT_SOCKET\<rparr>)
                (enumerate (fresh ng)
                   (filter (\<lambda>v. v \<notin> set (map sock_name (inputs ng)) \<and> v \<noteq> [])
                      (set_iter E vars)))"
  have e: "(if vars = [] then [] else set_iter E vars) = set_iter E vars"
    using s by auto
  have c: "inputs (create_new_sockets E in_nod vars ng) = inputs ng @ ?new"
    using create_new_sockets_inputs [OF t, of E vars ng] unfolding e .
  have k: "filter (\<lambda>s. sock_type s = CUSTOM \<or> sock_name s \<in> set vars) ?new = ?new"
  proof (rule filter_True, rule ballI)
    fix x assume x: "x \<in> set ?new"
    have "sock_name x \<in> sock_name ` set ?new" using x by (rule imageI)
    then have "sock_name x \<in> set (map sock_name ?new)" by (simp only: set_map)
    then have "sock_name x \<in> set (set_iter E vars)" unfolding created_names by simp
    then show "sock_type x = CUSTOM \<or> sock_name x \<in> set vars" using s by simp
  qed
  show "inputs (remove_unused_sockets in_nod vars (create_new_sockets E in_nod vars ng))
        = filter (\<lambda>s. sock_type s = CUSTOM \<or> sock_name s \<in> set vars) (inputs ng) @ ?new"
    unfolding remove_unused_sockets_inputs [OF t] c filter_append k ..
next
  show "list_all
       (\<lambda>E. case update_user_mathexp E (asc ''a+b'') node0 of
               Some (None, first) \<Rightarrow>
                 (case update_user_mathexp E (asc ''a+c'') first of
                    Some (None, second) \<Rightarrow>
                      error_message first = [] \<and> error_message second = []
                      \<and> length (inputs (node_tree first)) = 2
                      \<and> length (inputs (node_tree second)) = 2
                      \<and> socket_named (asc ''a'') first \<noteq> None
                      \<and> socket_named (asc ''a'') second = socket_named (asc ''a'') first
                      \<and> socket_named (asc ''b'') first \<noteq> None
                      \<and> socket_named (asc ''b'') second = None
                      \<and> map_option sock_identifier (socket_named (asc ''b'') first)
                          \<notin> set (map (\<lambda>s. Some (sock_identifier s)) (inputs (node_tree second)))
                      \<and> socket_named (asc ''c'') first = None
                      \<and> socket_named (asc ''c'') second \<noteq> None
                      \<and> map_option sock_identifier (socket_named (asc ''c'') second)
                          \<notin> set (map (\<lambda>s. Some (sock_identifier s)) (inputs (node_tree first)))
                  | _ \<Rightarrow> False)
             | _ \<Rightarrow> False)
       [env0, env1]"
    by code_simp
qed

theorem C6_boundary_reconciliation_witness:
  "node_type (hd (nodes new_nodegroup)) = GROUP_INPUT
   \<and> iterates env1 [asc ''c'', asc ''a'', asc ''d'']
   \<and> inputs (remove_unused_sockets (hd (nodes new_nodegroup)) [asc ''c'', asc ''a'', asc ''d'']
        (create_new_sockets env1 (hd (nodes new_nodegroup)) [asc ''c'', asc ''a'', asc ''d'']
           (node_tree compiled_a_plus_b)))
     = [\<lparr>sock_identifier = 2, sock_name = asc ''a'', sock_type = FLOAT_SOCKET\<rparr>,
        \<lparr>sock_identifier = 5, sock_name = asc ''d'', sock_type = FLOAT_SOCKET\<rparr>,
        \<lparr>sock_identifier = 6, sock_name = asc ''c'', sock_type = FLOAT_SOCKET\<rparr>]"
proof -
  have h: "node_type (hd (nodes new_nodegroup)) = GROUP_INPUT
           \<and> iterates env1 [asc ''c'', asc ''a'', asc ''d'']"
    by code_simp
  have r: "filter (\<lambda>s. sock_type s = CUSTOM \<or> sock_name s \<in> set [asc ''c'', asc ''a'', asc ''d''])
             (inputs (node_tree compiled_a_plus_b))
           @ map (\<lambda>(i, v). \<lparr>sock_identifier = i, sock_name = v, sock_type = FLOAT_SOCKET\<rparr>)
               (enumerate (fresh (node_tree compiled_a_plus_b))
                  (filter (\<lambda>v. v \<notin> set (map sock_name (inputs (node_tree compiled_a_plus_b)))
                                \<and> v \<noteq> [])
                     (set_iter env1 [asc ''c'', asc ''a'', asc ''d''])))
           = [\<lparr>sock_identifier = 2, sock_name = asc ''a'', sock_type = FLOAT_SOCKET\<rparr>,
              \<lparr>sock_identifier = 5, sock_name = asc ''d'', sock_type = FLOAT_SOCKET\<rparr>,
              \<lparr>sock_identifier = 6, sock_name = asc ''c'', sock_type = FLOAT_SOCKET\<rparr>]"
    by code_simp
  note g = C6_boundary_reconciliation [THEN conjunct1, rule_format,
             of "hd (nodes new_nodegroup)" env1 "[asc ''c'', asc ''a'', asc ''d'']"
                "node_tree compiled_a_plus_b"]
  from g [OF h] r h show ?thesis by (simp only:)
qed



subsection \<open>Sanitizing: what it reports and what it leaves alone\<close>

lemma classify_loop_error:
  "classify_loop body es s = (Some err, s') \<Longrightarrow> \<exists>e a. e \<in> set es \<and> body e a = Inl err"
proof (induction es arbitrary: s)
  case Nil
  then show ?case by simp
next
  case (Cons e es)
  then show ?case by (cases "body e s") (auto, blast+)
qed

lemma classify_loop_invariant:
  assumes "Q s" and "\<And>e a a'. Q a \<Longrightarrow> body e a = Inr a' \<Longrightarrow> Q a'"
  shows "Q (snd (classify_loop body es s))"
  using assms(1)
proof (induction es arbitrary: s)
  case Nil
  then show ?case by simp
next
  case (Cons e es)
  then show ?case using assms(2) by (cases "body e s") auto
qed

lemma classify_explicit_not_taken: "classify_explicit E e a \<noteq> Inl (VariableTaken t)"
  by (simp add: classify_explicit_def)

lemma classify_implicit_not_taken: "classify_implicit E x e a \<noteq> Inl (VariableTaken t)"
  by (simp add: classify_implicit_def)

lemma sanatize_expression_unfold:
  "sanatize_expression E self expression =
     (let p = prepare_expression E expression;
          self1 = self\<lparr>elemTotal := gather_elements p, elemFct := [], elemConst := [],
                        elemVar := [], elemCmplx := []\<rparr>;
          r = (if implicit_mult self
               then classify_loop (classify_implicit E p) (set_iter E (gather_elements p)) self1
               else classify_loop (classify_explicit E) (set_iter E (gather_elements p)) self1)
      in case fst r of
           Some err \<Rightarrow> (Inl err, snd r)
         | None \<Rightarrow>
             (case find (\<lambda>char. char \<notin> set authorized_symbols) p of
                Some char \<Rightarrow> (Inl (UnrecognizedSymbol char), snd r)
              | None \<Rightarrow> (Inr (sub_implicit_paren E p), snd r)))"
  by (cases "implicit_mult self")
    (auto simp: sanatize_expression_def Let_def split: prod.splits option.splits)

lemma sanatize_expression_not_taken:
  "fst (sanatize_expression E self expression) \<noteq> Inl (VariableTaken t)"
proof -
  have a: "fst (classify_loop (classify_explicit E) es s) \<noteq> Some (VariableTaken t)" for es s
    using classify_loop_error [of "classify_explicit E" es s "VariableTaken t"]
      classify_explicit_not_taken
    by (cases "classify_loop (classify_explicit E) es s") auto
  have b: "fst (classify_loop (classify_implicit E x) es s) \<noteq> Some (VariableTaken t)" for es s x
    using classify_loop_error [of "classify_implicit E x" es s "VariableTaken t"]
      classify_implicit_not_taken
    by (cases "classify_loop (classify_implicit E x) es s") auto
  show ?thesis
  proof (cases "implicit_mult self")
    case True
    then show ?thesis
      unfolding sanatize_expression_unfold Let_def using b by (auto split: option.splits)
  next
    case False
    then show ?thesis
      unfolding sanatize_expression_unfold Let_def using a by (auto split: option.splits)
  qed
qed

text \<open>
  \<open>sanatize_expression\<close> writes the element sets of the node and nothing else: the node
  tree, the messages, the raw expression and the options are as they were.
\<close>

lemma sanatize_expression_untouched:
  "untouched self (snd (sanatize_expression E self expression))"
proof -
  have e: "untouched self a \<Longrightarrow> classify_explicit E e a = Inr a' \<Longrightarrow> untouched self a'"
    for e a a'
    by (auto simp: classify_explicit_def untouched_def split: if_splits)
  have i: "untouched self a \<Longrightarrow> classify_implicit E x e a = Inr a' \<Longrightarrow> untouched self a'"
    for e a a' x
    by (auto simp: classify_implicit_def untouched_def split: if_splits)
  have le: "untouched self a \<Longrightarrow> untouched self (snd (classify_loop (classify_explicit E) es a))"
    for a es
    by (rule classify_loop_invariant [where Q = "untouched self"]) (auto intro: e)
  have li: "untouched self a \<Longrightarrow> untouched self (snd (classify_loop (classify_implicit E x) es a))"
    for a es x
    by (rule classify_loop_invariant [where Q = "untouched self"]) (auto intro: i)
  have start: "untouched self (self\<lparr>elemTotal := t, elemFct := [], elemConst := [], elemVar := [],
      elemCmplx := []\<rparr>)" for t
    by (simp add: untouched_def)
  show ?thesis
  proof (cases "implicit_mult self")
    case True
    then show ?thesis
      unfolding sanatize_expression_unfold Let_def using li [OF start]
      by (auto split: option.splits)
  next
    case False
    then show ?thesis
      unfolding sanatize_expression_unfold Let_def using le [OF start]
      by (auto split: option.splits)
  qed
qed

lemma sanitize_error_message:
  "sanitize_error e = (hd (message e) = 85 \<or> hd (message e) = 86)"
  by (cases e) (simp_all add: asc_def quoted_def)

lemma message_not_empty: "message e \<noteq> []"
  by (cases e) (simp_all add: asc_def quoted_def)

subsection \<open>The stages of a pass\<close>

lemma apply_expression_no_boundary:
  "nodes_get (node_tree self) (asc ''Group Input'') = None
     \<or> nodes_get (node_tree self) (asc ''Group Output'') = None
   \<Longrightarrow> apply_expression E self = Some (Some KeyError, self)"
  by (subst apply_expression.simps) (auto split: option.splits)

lemma apply_expression_rewrite:
  assumes "nodes_get (node_tree self) (asc ''Group Input'') = Some in_nod"
    and "nodes_get (node_tree self) (asc ''Group Output'') = Some out_nod"
    and "auto_symbols self" and "macros_matched E (user_mathexp self)"
  shows "apply_expression E self =
           (case apply_expression E
              ((reset_messages self)\<lparr>user_mathexp := with_glyphs E (user_mathexp self)\<rparr>) of
              None \<Rightarrow> None
            | Some (raised, after) \<Rightarrow> Some (None, after))"
  using assms
  by (subst apply_expression.simps)
     (simp add: Let_def reset_messages_def macros_matched_def with_glyphs_def)

lemma apply_expression_compile:
  assumes "nodes_get (node_tree self) (asc ''Group Input'') = Some in_nod"
    and "nodes_get (node_tree self) (asc ''Group Output'') = Some out_nod"
    and "\<not> (auto_symbols self \<and> macros_matched E (user_mathexp self))"
  shows "apply_expression E self = apply_sanatized E in_nod (reset_messages self)"
  using assms
  by (subst apply_expression.simps)
     (auto simp: Let_def reset_messages_def macros_matched_def)


lemma with_glyphs_shorter:
  "macros_matched E text \<Longrightarrow> length (with_glyphs E text) < length text"
  unfolding with_glyphs_def macros_matched_def by (rule replace_macros_shorter)

text \<open>An induction rule that follows the three ways a pass can go.\<close>

lemma apply_expression_induct [case_names no_boundary rewrite compile]:
  assumes nb: "\<And>self. nodes_get (node_tree self) (asc ''Group Input'') = None
              \<or> nodes_get (node_tree self) (asc ''Group Output'') = None \<Longrightarrow> P self"
    and rw: "\<And>self in_nod out_nod.
           nodes_get (node_tree self) (asc ''Group Input'') = Some in_nod \<Longrightarrow>
           nodes_get (node_tree self) (asc ''Group Output'') = Some out_nod \<Longrightarrow>
           auto_symbols self \<Longrightarrow> macros_matched E (user_mathexp self) \<Longrightarrow>
           P ((reset_messages self)\<lparr>user_mathexp := with_glyphs E (user_mathexp self)\<rparr>) \<Longrightarrow>
           P self"
    and cp: "\<And>self in_nod out_nod.
           nodes_get (node_tree self) (asc ''Group Input'') = Some in_nod \<Longrightarrow>
           nodes_get (node_tree self) (asc ''Group Output'') = Some out_nod \<Longrightarrow>
           \<not> (auto_symbols self \<and> macros_matched E (user_mathexp self)) \<Longrightarrow> P self"
  shows "P self"
proof (induction "length (user_mathexp self)" arbitrary: self rule: less_induct)
  case less
  show ?case
  proof (cases "nodes_get (node_tree self) (asc ''Group Input'')")
    case None
    then have "nodes_get (node_tree self) (asc ''Group Input'') = None
               \<or> nodes_get (node_tree self) (asc ''Group Output'') = None" ..
    then show ?thesis by (rule nb)
  next
    case in_nod: (Some in_nod)
    show ?thesis
    proof (cases "nodes_get (node_tree self) (asc ''Group Output'')")
      case None
      then have "nodes_get (node_tree self) (asc ''Group Input'') = None
                 \<or> nodes_get (node_tree self) (asc ''Group Output'') = None" ..
      then show ?thesis by (rule nb)
    next
      case out_nod: (Some out_nod)
      show ?thesis
      proof (cases "auto_symbols self \<and> macros_matched E (user_mathexp self)")
        case False
        from in_nod out_nod False show ?thesis by (rule cp)
      next
        case True
        then have a: "auto_symbols self" and m: "macros_matched E (user_mathexp self)"
          by blast+
        have "length (user_mathexp
                 ((reset_messages self)\<lparr>user_mathexp := with_glyphs E (user_mathexp self)\<rparr>))
              < length (user_mathexp self)"
          using with_glyphs_shorter [OF m] by simp
        then have "P ((reset_messages self)\<lparr>user_mathexp := with_glyphs E (user_mathexp self)\<rparr>)"
          by (rule less)
        with in_nod out_nod a m show ?thesis by (rule rw)
      qed
    qed
  qed
qed

subsection \<open>Which stage an error message comes from\<close>

lemma transform_expression_error:
  "transform_expression E text = Some (Inl err) \<Longrightarrow> \<not> sanitize_error err"
  by (auto simp: transform_expression_def split: parsed.splits option.splits prod.splits)

lemma cook_exception_error: "\<not> sanitize_error (cook_exception x)"
  by (cases x) simp_all

lemma final_link_error: "final_link customnode ng = (Some err, ng') \<Longrightarrow> \<not> sanitize_error err"
  by (auto simp: final_link_def split: option.splits)

lemma execute_function_expression_error:
  "execute_function_expression E customnode expression ng varsapi constapi = Some (Some err, ng')
   \<Longrightarrow> \<not> sanitize_error err"
  unfolding execute_function_expression_def Let_def
  by (auto split: option.splits prod.splits sum.splits
      simp: cook_exception_error dest: final_link_error)

text \<open>
  The two ways \<open>apply_sanatized\<close> can go: the sanitizing fails, and the node is as it was
  but for the element sets and the two messages; or it succeeds, and every message set
  afterwards is the message of a later stage.
\<close>

lemma apply_sanatized_cases:
  assumes "apply_sanatized E in_nod s = Some (raised, result)"
  shows "(\<exists>rval s1. sanatize_expression E s (user_mathexp s) = (Inl rval, s1) \<and> raised = None
            \<and> result = s1\<lparr>error_message := message rval, debug_sanatized := asc ''Failed''\<rparr>)
       \<or> (\<exists>sanatized s1. sanatize_expression E s (user_mathexp s) = (Inr sanatized, s1)
            \<and> (error_message result = error_message s1
                \<or> (\<exists>err. \<not> sanitize_error err \<and> error_message result = message err))
            \<and> user_mathexp result = user_mathexp s1)"
proof (cases "sanatize_expression E s (user_mathexp s)")
  case (Pair r s1)
  show ?thesis
  proof (cases r)
    case (Inl rval)
    with Pair assms show ?thesis by (simp add: apply_sanatized_def)
  next
    case (Inr sanatized)
    have "(error_message result = error_message s1
           \<or> (\<exists>err. \<not> sanitize_error err \<and> error_message result = message err))
          \<and> user_mathexp result = user_mathexp s1"
      using assms Pair Inr unfolding apply_sanatized_def Let_def
      by (auto split: option.splits prod.splits sum.splits if_splits
          dest: transform_expression_error execute_function_expression_error)
    with Pair Inr show ?thesis by simp
  qed
qed

lemma classify_explicit_error:
  "classify_explicit E e a = Inl err \<Longrightarrow> err = UnrecognizedVariable e"
  by (auto simp: classify_explicit_def split: if_splits)

lemma classify_implicit_error:
  "classify_implicit E x e a = Inl err \<Longrightarrow> err = UnrecognizedVariable e"
  by (auto simp: classify_implicit_def split: if_splits)

text \<open>
  The errors of \<open>sanatize_expression\<close>: an element that is not recognized, or else the
  first character of the prepared text that is not an authorized symbol.
\<close>

lemma sanatize_expression_errors:
  assumes "fst (sanatize_expression E self expression) = Inl err"
  shows "(\<exists>e. e \<in> set (set_iter E (gather_elements (prepare_expression E expression)))
              \<and> err = UnrecognizedVariable e)
         \<or> (\<exists>c. find (\<lambda>char. char \<notin> set authorized_symbols) (prepare_expression E expression)
                    = Some c \<and> err = UnrecognizedSymbol c)"
proof -
  have a: "fst (classify_loop (classify_explicit E) es s) = Some err
           \<Longrightarrow> \<exists>e. e \<in> set es \<and> err = UnrecognizedVariable e" for es s
    using classify_loop_error [of "classify_explicit E" es s err] classify_explicit_error
    by (cases "classify_loop (classify_explicit E) es s") fastforce
  have b: "fst (classify_loop (classify_implicit E x) es s) = Some err
           \<Longrightarrow> \<exists>e. e \<in> set es \<and> err = UnrecognizedVariable e" for es s x
    using classify_loop_error [of "classify_implicit E x" es s err] classify_implicit_error
    by (cases "classify_loop (classify_implicit E x) es s") fastforce
  show ?thesis
  proof (cases "implicit_mult self")
    case True
    then show ?thesis
      using assms b unfolding sanatize_expression_unfold Let_def
      by (auto split: option.splits)
  next
    case False
    then show ?thesis
      using assms a unfolding sanatize_expression_unfold Let_def
      by (auto split: option.splits)
  qed
qed

lemma sanatize_expression_sanitize_error:
  "fst (sanatize_expression E self expression) = Inl err \<Longrightarrow> sanitize_error err"
  using sanatize_expression_errors [of E self expression err] by auto

lemma message_stage:
  "sanitize_error err \<Longrightarrow> \<not> sanitize_error err' \<Longrightarrow> message err \<noteq> message err'"
  using sanitize_error_message [of err] sanitize_error_message [of err'] by auto

lemma apply_sanatized_graph:
  assumes "apply_sanatized E in_nod s = Some (raised, result)"
    and "sanitize_error err" and "error_message result = message err"
    and "error_message s = []"
  shows "node_tree result = node_tree s"
proof -
  from apply_sanatized_cases [OF assms(1)]
  consider (failed) rval s1 where
      "sanatize_expression E s (user_mathexp s) = (Inl rval, s1)"
      "result = s1\<lparr>error_message := message rval, debug_sanatized := asc ''Failed''\<rparr>"
    | (passed) sanatized s1 where
      "sanatize_expression E s (user_mathexp s) = (Inr sanatized, s1)"
      "error_message result = error_message s1
       \<or> (\<exists>err. \<not> sanitize_error err \<and> error_message result = message err)"
    by blast
  then show ?thesis
  proof cases
    case failed
    then have "untouched s s1"
      using sanatize_expression_untouched [of s E "user_mathexp s"] by simp
    with failed(2) show ?thesis by (simp add: untouched_def)
  next
    case passed
    have "untouched s s1"
      using passed(1) sanatize_expression_untouched [of s E "user_mathexp s"] by simp
    then have "error_message s1 = []" using assms(4) by (simp add: untouched_def)
    with passed(2) assms(2,3) message_not_empty [of err] message_stage [OF assms(2)]
    show ?thesis by auto
  qed
qed

text \<open>
  C1, as amended. Whenever a pass ends with a message of the sanitizing stage, the node
  tree is the tree it was: no node, socket or link was touched. And a text whose
  sanitizing fails (no macro name to rewrite first) does end the pass there, with the
  message of the sanitizer. The later stages run after the tree was changed; see the
  counterexample.
\<close>

theorem C1_sanitize_failure_leaves_graph:
  "(\<forall>E self raised result err.
      apply_expression E self = Some (raised, result)
      \<and> sanitize_error err \<and> error_message result = message err
      \<longrightarrow> node_tree result = node_tree self)
   \<and> (\<forall>E self rval s1.
      has_boundary (node_tree self)
      \<and> \<not> (auto_symbols self \<and> macros_matched E (user_mathexp self))
      \<and> sanatize_expression E (reset_messages self) (user_mathexp self) = (Inl rval, s1)
      \<longrightarrow> apply_expression E self
            = Some (None, s1\<lparr>error_message := message rval, debug_sanatized := asc ''Failed''\<rparr>)
          \<and> sanitize_error rval \<and> node_tree s1 = node_tree self)"
proof (intro conjI allI impI)
  fix E self raised result err
  assume h: "apply_expression E self = Some (raised, result)
             \<and> sanitize_error err \<and> error_message result = message err"
  have "\<forall>raised result. apply_expression E self = Some (raised, result)
          \<and> error_message result = message err \<longrightarrow> node_tree result = node_tree self"
  proof (induction self rule: apply_expression_induct [where E = E])
    case (no_boundary self)
    then show ?case using apply_expression_no_boundary [of self E] by auto
  next
    case (rewrite self in_nod out_nod)
    show ?case
    proof (intro allI impI)
      fix raised result
      assume a: "apply_expression E self = Some (raised, result)
                 \<and> error_message result = message err"
      let ?next = "(reset_messages self)\<lparr>user_mathexp := with_glyphs E (user_mathexp self)\<rparr>"
      from a apply_expression_rewrite [OF rewrite(1-4)]
      obtain raised' where "apply_expression E ?next = Some (raised', result)"
        by (auto split: option.splits)
      with rewrite(5) a have "node_tree result = node_tree ?next" by blast
      then show "node_tree result = node_tree self" by (simp add: reset_messages_def)
    qed
  next
    case (compile self in_nod out_nod)
    show ?case
    proof (intro allI impI)
      fix raised result
      assume a: "apply_expression E self = Some (raised, result)
                 \<and> error_message result = message err"
      then have "apply_sanatized E in_nod (reset_messages self) = Some (raised, result)"
        using apply_expression_compile [OF compile] by simp
      from apply_sanatized_graph [OF this, of err] h a
      show "node_tree result = node_tree self" by (simp add: reset_messages_def)
    qed
  qed
  with h show "node_tree result = node_tree self" by blast
next
  fix E self rval s1
  assume h: "has_boundary (node_tree self)
      \<and> \<not> (auto_symbols self \<and> macros_matched E (user_mathexp self))
      \<and> sanatize_expression E (reset_messages self) (user_mathexp self) = (Inl rval, s1)"
  then obtain in_nod out_nod where
    b: "nodes_get (node_tree self) (asc ''Group Input'') = Some in_nod"
       "nodes_get (node_tree self) (asc ''Group Output'') = Some out_nod"
    by (auto simp: has_boundary_def split: option.splits)
  have u: "user_mathexp (reset_messages self) = user_mathexp self"
    by (simp add: reset_messages_def)
  from h have "apply_sanatized E in_nod (reset_messages self)
      = Some (None, s1\<lparr>error_message := message rval, debug_sanatized := asc ''Failed''\<rparr>)"
    by (simp add: apply_sanatized_def u)
  with h b show "apply_expression E self
      = Some (None, s1\<lparr>error_message := message rval, debug_sanatized := asc ''Failed''\<rparr>)"
    using apply_expression_compile [of self in_nod out_nod E] by simp
  from h show "sanitize_error rval"
    using sanatize_expression_sanitize_error [of E "reset_messages self" "user_mathexp self" rval]
    by simp
  from h show "node_tree s1 = node_tree self"
    using sanatize_expression_untouched [of "reset_messages self" E "user_mathexp self"]
    by (simp add: untouched_def reset_messages_def)
qed

theorem C1_sanitize_failure_leaves_graph_witness:
  "(has_boundary (node_tree (compiled_a_plus_b\<lparr>user_mathexp := asc ''x&y''\<rparr>))
    \<and> \<not> (auto_symbols (compiled_a_plus_b\<lparr>user_mathexp := asc ''x&y''\<rparr>)
          \<and> macros_matched env0 (user_mathexp (compiled_a_plus_b\<lparr>user_mathexp := asc ''x&y''\<rparr>)))
    \<and> sanatize_expression env0 (reset_messages (compiled_a_plus_b\<lparr>user_mathexp := asc ''x&y''\<rparr>))
         (user_mathexp (compiled_a_plus_b\<lparr>user_mathexp := asc ''x&y''\<rparr>))
       = (Inl (UnrecognizedVariable (asc ''x&y'')),
          compiled_a_plus_b\<lparr>user_mathexp := asc ''x&y'', error_message := [],
            debug_sanatized := [], debug_fctexp := [], elemTotal := [asc ''x&y''],
            elemVar := []\<rparr>))
   \<and> apply_expression env0 (compiled_a_plus_b\<lparr>user_mathexp := asc ''x&y''\<rparr>)
       = Some (None,
           compiled_a_plus_b\<lparr>user_mathexp := asc ''x&y'', error_message := [],
             debug_sanatized := [], debug_fctexp := [], elemTotal := [asc ''x&y''],
             elemVar := []\<rparr>
           \<lparr>error_message := message (UnrecognizedVariable (asc ''x&y'')),
            debug_sanatized := asc ''Failed''\<rparr>)
   \<and> node_tree
        (compiled_a_plus_b\<lparr>user_mathexp := asc ''x&y'', error_message := [],
             debug_sanatized := [], debug_fctexp := [], elemTotal := [asc ''x&y''],
             elemVar := []\<rparr>
           \<lparr>error_message := message (UnrecognizedVariable (asc ''x&y'')),
            debug_sanatized := asc ''Failed''\<rparr>)
       = node_tree (compiled_a_plus_b\<lparr>user_mathexp := asc ''x&y''\<rparr>)"
proof -
  let ?X = "compiled_a_plus_b\<lparr>user_mathexp := asc ''x&y''\<rparr>"
  let ?V = "UnrecognizedVariable (asc ''x&y'')"
  let ?S = "compiled_a_plus_b\<lparr>user_mathexp := asc ''x&y'', error_message := [],
            debug_sanatized := [], debug_fctexp := [], elemTotal := [asc ''x&y''],
            elemVar := []\<rparr>"
  let ?R = "?S\<lparr>error_message := message ?V, debug_sanatized := asc ''Failed''\<rparr>"
  have h: "has_boundary (node_tree ?X)
    \<and> \<not> (auto_symbols ?X \<and> macros_matched env0 (user_mathexp ?X))
    \<and> sanatize_expression env0 (reset_messages ?X) (user_mathexp ?X) = (Inl ?V, ?S)"
    by (intro conjI; code_simp)
  note second = C1_sanitize_failure_leaves_graph [THEN conjunct2, rule_format, OF h]
  have m: "error_message ?R = message ?V" by simp
  from second have run: "apply_expression env0 ?X = Some (None, ?R)"
    and stage: "sanitize_error ?V" by blast+
  note first = C1_sanitize_failure_leaves_graph [THEN conjunct1, rule_format,
      OF conjI [OF run conjI [OF stage m]]]
  from h run first show ?thesis by blast
qed

text \<open>
  C1 as stated fails for the parsing stage. On the node compiled from \<open>a+b\<close>, the
  expression \<open>a+\<close> passes the sanitizing and fails to parse; by then the math node and
  its links are deleted and the boundary input \<open>b\<close> is removed. The expression \<open>foo(x)\<close>
  fails with the unknown function \<open>foo\<close> after the math node was deleted and the
  boundary inputs were replaced by \<open>foo\<close> and \<open>x\<close>. Neither message is one of the
  sanitizing stage. The order in which sets are iterated makes no difference.
\<close>

theorem C1_counterexample:
  "list_all
     (\<lambda>E. (case update_user_mathexp E (asc ''a+'') compiled_a_plus_b of
              Some (None, result) \<Rightarrow>
                error_message result = message ExpressionNotRecognized
                \<and> debug_sanatized result = asc ''a+''
                \<and> node_tree result \<noteq> node_tree compiled_a_plus_b
                \<and> map node_type (nodes (node_tree result)) = [GROUP_INPUT, GROUP_OUTPUT]
                \<and> map sock_name (inputs (node_tree result)) = [asc ''a'']
                \<and> links (node_tree result) = []
            | _ \<Rightarrow> False)
         \<and> (case update_user_mathexp E (asc ''foo(x)'') compiled_a_plus_b of
              Some (None, result) \<Rightarrow>
                error_message result = message (FunctionNotRecognized (asc ''foo''))
                \<and> debug_sanatized result = asc ''foo(x)''
                \<and> map node_type (nodes (node_tree result)) = [GROUP_INPUT, GROUP_OUTPUT]
                \<and> length (inputs (node_tree result)) = 2
                \<and> socket_named (asc ''foo'') result \<noteq> None
                \<and> socket_named (asc ''x'') result \<noteq> None
                \<and> links (node_tree result) = []
            | _ \<Rightarrow> False))
     [env0, env1]
   \<and> map node_type (nodes (node_tree compiled_a_plus_b)) = [GROUP_INPUT, GROUP_OUTPUT, MATH]
   \<and> map sock_name (inputs (node_tree compiled_a_plus_b)) = [asc ''a'', asc ''b'']
   \<and> length (links (node_tree compiled_a_plus_b)) = 3
   \<and> \<not> sanitize_error ExpressionNotRecognized
   \<and> \<not> sanitize_error (FunctionNotRecognized (asc ''foo''))"
  by (intro conjI; code_simp)

subsection \<open>Characters outside the authorized set\<close>






end
